theory Spec2Isabelle
  imports Complex_Main "HOL-Library.Sublist"
begin

section \<open>Strings and characters\<close>

text \<open>
  The program is TypeScript. Its strings are modelled as \<^typ>\<open>string\<close> over the ASCII
  range: \<open>isSpace\<close> holds the ASCII members of the whitespace class that \<open>trim\<close> and
  the regular-expression class \<open>\s\<close> use, \<open>isWordChar\<close> is the class \<open>[A-Za-z0-9_]\<close>
  that \<open>\b\<close> uses, and \<open>toUpperChar\<close>/\<open>toLowerChar\<close> are the ASCII case mappings
  (every other character is left unchanged).
\<close>

definition isSpace :: "char \<Rightarrow> bool" where
  "isSpace c = (let n = (of_char c :: nat) in (9 \<le> n \<and> n \<le> 13) \<or> n = 32)"

definition isUpperChar :: "char \<Rightarrow> bool" where
  "isUpperChar c = (let n = (of_char c :: nat) in 65 \<le> n \<and> n \<le> 90)"

definition isLowerChar :: "char \<Rightarrow> bool" where
  "isLowerChar c = (let n = (of_char c :: nat) in 97 \<le> n \<and> n \<le> 122)"

definition isDigitChar :: "char \<Rightarrow> bool" where
  "isDigitChar c = (let n = (of_char c :: nat) in 48 \<le> n \<and> n \<le> 57)"

definition isWordChar :: "char \<Rightarrow> bool" where
  "isWordChar c = (isUpperChar c \<or> isLowerChar c \<or> isDigitChar c \<or> c = CHR ''_'')"

definition toUpperChar :: "char \<Rightarrow> char" where
  "toUpperChar c = (if isLowerChar c then char_of ((of_char c :: nat) - 32) else c)"

definition toLowerChar :: "char \<Rightarrow> char" where
  "toLowerChar c = (if isUpperChar c then char_of ((of_char c :: nat) + 32) else c)"

definition toUpperCase :: "string \<Rightarrow> string" where
  "toUpperCase s = map toUpperChar s"

definition toLowerCase :: "string \<Rightarrow> string" where
  "toLowerCase s = map toLowerChar s"

text \<open>\<open>String.prototype.trim\<close>: whitespace is removed from both ends.\<close>

definition trim :: "string \<Rightarrow> string" where
  "trim s = rev (dropWhile isSpace (rev (dropWhile isSpace s)))"

text \<open>\<open>s.split(' ')\<close>: the pieces between single separators; the empty string gives one
  empty piece.\<close>

fun split :: "char \<Rightarrow> string \<Rightarrow> string list" where
  "split d [] = [[]]"
| "split d (c # cs) =
     (if c = d then [] # split d cs
      else (case split d cs of [] \<Rightarrow> [[c]] | w # ws \<Rightarrow> (c # w) # ws))"

text \<open>\<open>a.join(' ')\<close>.\<close>

fun join :: "string \<Rightarrow> string list \<Rightarrow> string" where
  "join sep [] = []"
| "join sep [w] = w"
| "join sep (w # v # ws) = w @ sep @ join sep (v # ws)"

section \<open>Regular expressions\<close>

text \<open>
  The patterns of \<open>location.ts\<close> are sequences of the items below. \<open>rx_match r prev s\<close>
  runs the backtracking matcher at one position: \<open>prev\<close> is the character before the
  position (\<open>None\<close> at the start of the input), \<open>s\<close> the input from the position on, and
  the result is the length of the match the engine finds first (quantifiers are greedy
  and give characters back one at a time), or \<open>None\<close>.
\<close>

datatype rx_item =
    One "char \<Rightarrow> bool"    \<comment> \<open>one character of a class\<close>
  | Opt "char \<Rightarrow> bool"    \<comment> \<open>\<open>x?\<close>\<close>
  | Star "char \<Rightarrow> bool"   \<comment> \<open>\<open>x*\<close>\<close>
  | Plus "char \<Rightarrow> bool"   \<comment> \<open>\<open>x+\<close>\<close>
  | WordB                  \<comment> \<open>\<open>\b\<close>\<close>
  | AtEnd                  \<comment> \<open>\<open>$\<close> (no multiline flag)\<close>

definition isWordAt :: "char option \<Rightarrow> bool" where
  "isWordAt x = (case x of None \<Rightarrow> False | Some c \<Rightarrow> isWordChar c)"

definition nextChar :: "string \<Rightarrow> char option" where
  "nextChar s = (case s of [] \<Rightarrow> None | c # _ \<Rightarrow> Some c)"

fun rx_match :: "rx_item list \<Rightarrow> char option \<Rightarrow> string \<Rightarrow> nat option" where
  "rx_match [] prev s = Some 0"
| "rx_match (One p # r) prev [] = None"
| "rx_match (One p # r) prev (c # cs) =
     (if p c then map_option Suc (rx_match r (Some c) cs) else None)"
| "rx_match (Opt p # r) prev [] = rx_match r prev []"
| "rx_match (Opt p # r) prev (c # cs) =
     (if p c then
        (case rx_match r (Some c) cs of
           Some n \<Rightarrow> Some (Suc n)
         | None \<Rightarrow> rx_match r prev (c # cs))
      else rx_match r prev (c # cs))"
| "rx_match (Star p # r) prev [] = rx_match r prev []"
| "rx_match (Star p # r) prev (c # cs) =
     (if p c then
        (case rx_match (Star p # r) (Some c) cs of
           Some n \<Rightarrow> Some (Suc n)
         | None \<Rightarrow> rx_match r prev (c # cs))
      else rx_match r prev (c # cs))"
| "rx_match (Plus p # r) prev [] = None"
| "rx_match (Plus p # r) prev (c # cs) =
     (if p c then map_option Suc (rx_match (Star p # r) (Some c) cs) else None)"
| "rx_match (WordB # r) prev s =
     (if isWordAt prev \<noteq> isWordAt (nextChar s) then rx_match r prev s else None)"
| "rx_match (AtEnd # r) prev s = (if s = [] then rx_match r prev s else None)"

text \<open>
  \<open>s.replace(/r/g, rep)\<close>: every match, found from left to right, is replaced; the search
  resumes where the match ended (one character further after an empty match).
\<close>

function replaceAll :: "rx_item list \<Rightarrow> string \<Rightarrow> char option \<Rightarrow> string \<Rightarrow> string" where
  "replaceAll r rep prev [] = (case rx_match r prev [] of None \<Rightarrow> [] | Some n \<Rightarrow> rep)"
| "replaceAll r rep prev (c # cs) =
     (case rx_match r prev (c # cs) of
        None \<Rightarrow> c # replaceAll r rep (Some c) cs
      | Some n \<Rightarrow>
          (if n = 0 then rep @ c # replaceAll r rep (Some c) cs
           else rep @ replaceAll r rep (Some (last (take n (c # cs)))) (drop n (c # cs))))"
  by pat_completeness auto
termination
  by (relation "measure (\<lambda>(r, rep, prev, s). length s)") auto

text \<open>\<open>s.replace(/r/, rep)\<close> without the \<open>g\<close> flag: only the leftmost match is replaced.\<close>

fun replaceFirst :: "rx_item list \<Rightarrow> string \<Rightarrow> char option \<Rightarrow> string \<Rightarrow> string" where
  "replaceFirst r rep prev [] = (case rx_match r prev [] of None \<Rightarrow> [] | Some n \<Rightarrow> rep)"
| "replaceFirst r rep prev (c # cs) =
     (case rx_match r prev (c # cs) of
        None \<Rightarrow> c # replaceFirst r rep (Some c) cs
      | Some n \<Rightarrow> rep @ drop n (c # cs))"

section \<open>Address normalization (\<open>utils/location.ts\<close>)\<close>

definition isComma :: "char \<Rightarrow> bool" where
  "isComma c = (c = CHR '','')"

definition isDot :: "char \<Rightarrow> bool" where
  "isDot c = (c = CHR ''.'')"

text \<open>A pattern letter under the \<open>i\<close> flag: both sides are compared after upper-casing.\<close>

definition ci :: "char \<Rightarrow> char \<Rightarrow> bool" where
  "ci a c = (toUpperChar c = toUpperChar a)"

text \<open>\<open>/,+/g\<close>, \<open>/\s+/g\<close> and \<open>/,\s*$/\<close>.\<close>

definition rx_commas :: "rx_item list" where
  "rx_commas = [Plus isComma]"

definition rx_spaces :: "rx_item list" where
  "rx_spaces = [Plus isSpace]"

definition rx_trailing_comma :: "rx_item list" where
  "rx_trailing_comma = [One isComma, Star isSpace, AtEnd]"

text \<open>\<open>/\bW\b\.?/gi\<close> for an abbreviation \<open>W\<close>, and \<open>/\bM\.?G\.?\b/gi\<close>.\<close>

definition rx_abbrev :: "string \<Rightarrow> rx_item list" where
  "rx_abbrev w = WordB # map (\<lambda>a. One (ci a)) w @ [WordB, Opt isDot]"

definition rx_MG :: "rx_item list" where
  "rx_MG = [WordB, One (ci CHR ''M''), Opt isDot, One (ci CHR ''G''), Opt isDot, WordB]"

text \<open>The callback of \<open>.map\<close>: a word of at most three characters that equals its own
  upper-casing is kept, any other word gets its first character upper-cased and the rest
  lower-cased.\<close>

definition titleCaseWord :: "string \<Rightarrow> string" where
  "titleCaseWord word =
     (if length word \<le> 3 \<and> word = toUpperCase word then word
      else toUpperCase (take 1 word) @ toLowerCase (drop 1 word))"

definition collapseCommas :: "string \<Rightarrow> string" where
  "collapseCommas s = replaceAll rx_commas '','' None s"

definition collapseSpaces :: "string \<Rightarrow> string" where
  "collapseSpaces s = replaceAll rx_spaces '' '' None s"

definition titleCase :: "string \<Rightarrow> string" where
  "titleCase s = join '' '' (map titleCaseWord (split CHR '' '' s))"

definition stripTrailingComma :: "string \<Rightarrow> string" where
  "stripTrailingComma s = replaceFirst rx_trailing_comma [] None s"

definition expand :: "string \<Rightarrow> string \<Rightarrow> string \<Rightarrow> string" where
  "expand w rep s = replaceAll (rx_abbrev w) rep None s"

definition expandAbbreviations :: "string \<Rightarrow> string" where
  "expandAbbreviations s =
     replaceAll rx_MG ''MG'' None
       (expand ''Pl'' ''Place''
         (expand ''Ct'' ''Court''
           (expand ''Ln'' ''Lane''
             (expand ''Dr'' ''Drive''
               (expand ''Blvd'' ''Boulevard''
                 (expand ''Ave'' ''Avenue''
                   (expand ''St'' ''Street''
                     (expand ''Rd'' ''Road'' s))))))))"

definition normalizeStreetName :: "string \<Rightarrow> string" where
  "normalizeStreetName street =
     (if street = [] then []
      else expandAbbreviations
             (stripTrailingComma (titleCase (collapseSpaces (collapseCommas (trim street))))))"

text \<open>
  The address object of the geocoder's answer. A field is \<open>None\<close> when the object does
  not have it; a field is used only when it is truthy, that is present and not empty.
  The fields \<open>city\<close> and \<open>state\<close> are called \<open>raw_city\<close> and \<open>raw_state\<close> here, since
  \<open>LocationAddress\<close> and the result of \<open>detectLocation\<close> have fields of these names too.
\<close>

record raw_address =
  road :: "string option"
  street :: "string option"
  pedestrian :: "string option"
  footway :: "string option"
  path :: "string option"
  highway :: "string option"
  neighbourhood :: "string option"
  suburb :: "string option"
  district :: "string option"
  building :: "string option"
  raw_city :: "string option"
  town :: "string option"
  village :: "string option"
  municipality :: "string option"
  county :: "string option"
  raw_state :: "string option"
  postcode :: "string option"

definition truthy :: "string option \<Rightarrow> bool" where
  "truthy x = (case x of None \<Rightarrow> False | Some s \<Rightarrow> s \<noteq> [])"

text \<open>The loop \<open>for (const field of streetFields) if (field) return ...\<close>.\<close>

fun firstTruthy :: "string option list \<Rightarrow> string option" where
  "firstTruthy [] = None"
| "firstTruthy (None # fs) = firstTruthy fs"
| "firstTruthy (Some s # fs) = (if s \<noteq> [] then Some s else firstTruthy fs)"

text \<open>\<open>.filter(Boolean)\<close> on a list of optional strings.\<close>

fun filterBoolean :: "string option list \<Rightarrow> string list" where
  "filterBoolean [] = []"
| "filterBoolean (None # fs) = filterBoolean fs"
| "filterBoolean (Some s # fs) = (if s \<noteq> [] then s # filterBoolean fs else filterBoolean fs)"

definition streetFields :: "raw_address \<Rightarrow> string option list" where
  "streetFields a = [road a, street a, pedestrian a, footway a, path a, highway a]"

definition extractStreetName :: "raw_address \<Rightarrow> string" where
  "extractStreetName a =
     (case firstTruthy (streetFields a) of
        Some field \<Rightarrow> normalizeStreetName field
      | None \<Rightarrow>
          (let fallback = join '' '' (filterBoolean [neighbourhood a, suburb a, district a])
           in if fallback \<noteq> [] then normalizeStreetName fallback else []))"

section \<open>Coordinate acquisition\<close>

record LocationCoordinates =
  latitude :: real
  longitude :: real
  accuracy :: "real option"

text \<open>\<open>LocationAddress.state\<close> is called \<open>addr_state\<close>.\<close>

record LocationAddress =
  street_name :: string
  city :: string
  addr_state :: "string option"
  postal_code :: "string option"
  full_address :: "string option"

datatype LocationSource = Auto | Manual

record LocationResult =
  coordinates :: LocationCoordinates
  address :: LocationAddress
  source :: LocationSource

datatype LocationState =
    Idle | RequestingPermission | Detecting | Geocoding | Success
  | PermissionDenied | Timeout | Unsupported | GeocodingFailed | Error

text \<open>The shape \<open>{ data: ... | null, error: ... | null }\<close> that the three asynchronous
  functions resolve to; \<open>detectLocation\<close> adds a \<open>state\<close>.\<close>

record ('d, 'e) outcome =
  data :: "'d option"
  error :: "'e option"

record ('d, 'e) detect_outcome = "('d, 'e) outcome" +
  state :: LocationState

text \<open>
  The platform. \<open>navigator\<close> either lacks the \<open>geolocation\<close> member (\<open>None\<close>) or has it;
  a call of \<open>getCurrentPosition\<close> is answered through the success callback with a position
  or through the error callback with an error code. The codes are those of the platform's
  \<open>GeolocationPositionError\<close>. Calls that leave the program are recorded in a log.
\<close>

datatype position_answer =
    Position real real real    \<comment> \<open>\<open>coords.latitude\<close>, \<open>coords.longitude\<close>, \<open>coords.accuracy\<close>\<close>
  | PositionError nat          \<comment> \<open>\<open>error.code\<close>\<close>

type_synonym navigator = "position_answer option"

datatype call = GetCurrentPosition | Fetch

definition PERMISSION_DENIED :: nat where "PERMISSION_DENIED = 1"
definition POSITION_UNAVAILABLE :: nat where "POSITION_UNAVAILABLE = 2"
definition TIMEOUT :: nat where "TIMEOUT = 3"

definition isGeolocationSupported :: "navigator \<Rightarrow> bool" where
  "isGeolocationSupported nav = (nav \<noteq> None)"

text \<open>The \<open>switch\<close> of the error callback; \<open>errorState\<close> starts as \<open>'error'\<close>.\<close>

definition errorStateOf :: "nat \<Rightarrow> LocationState" where
  "errorStateOf code =
     (if code = PERMISSION_DENIED then PermissionDenied
      else if code = TIMEOUT then Timeout
      else if code = POSITION_UNAVAILABLE then Error
      else Error)"

definition getCurrentLocation ::
  "navigator \<Rightarrow> (LocationCoordinates, LocationState) outcome \<times> call list" where
  "getCurrentLocation nav =
     (case nav of
        None \<Rightarrow> (\<lparr>data = None, error = Some Unsupported\<rparr>, [])
      | Some (Position lat lon acc) \<Rightarrow>
          (\<lparr>data = Some \<lparr>latitude = lat, longitude = lon, accuracy = Some acc\<rparr>, error = None\<rparr>,
           [GetCurrentPosition])
      | Some (PositionError code) \<Rightarrow>
          (\<lparr>data = None, error = Some (errorStateOf code)\<rparr>, [GetCurrentPosition]))"

section \<open>Reverse geocoding\<close>

text \<open>
  A thrown value is an \<open>Error\<close> with its message or something else. \<open>fetch\<close> either
  throws or gives a response; \<open>response.json()\<close> either throws or gives the parsed body
  with its optional \<open>address\<close> and \<open>display_name\<close>. A body on which reading
  \<open>data.address\<close> throws (\<open>null\<close>) belongs to the throwing case: the same \<open>catch\<close> block
  handles it. The request is made for the given coordinates; \<open>fetch\<close> is the answer of
  the network to it.
\<close>

datatype js_exn = JsError string | JsOther

record geo_body =
  body_address :: "raw_address option"
  display_name :: "string option"

record http_response =
  ok :: bool
  json :: "js_exn + geo_body"

type_synonym fetcher = "LocationCoordinates \<Rightarrow> js_exn + http_response"

text \<open>The \<open>catch\<close> block of \<open>reverseGeocode\<close>.\<close>

definition geocodeCatch :: "js_exn \<Rightarrow> (LocationAddress, string) outcome" where
  "geocodeCatch e =
     \<lparr>data = None,
      error = Some (case e of JsError m \<Rightarrow> m | JsOther \<Rightarrow> ''Failed to get address from location'')\<rparr>"

text \<open>\<open>a || b\<close> on optional strings.\<close>

definition orElse :: "string option \<Rightarrow> string option \<Rightarrow> string option" where
  "orElse x y = (if truthy x then x else y)"

text \<open>Lines 200 to 212: the extracted street name, or the building fallback.\<close>

definition streetCandidate :: "raw_address \<Rightarrow> string" where
  "streetCandidate a =
     (let street_name = extractStreetName a
      in if street_name = [] then
           (let fallbackComponents = filterBoolean [building a, orElse (suburb a) (neighbourhood a)]
            in if length fallbackComponents > 0
               then normalizeStreetName (join '' '' fallbackComponents)
               else street_name)
         else street_name)"

text \<open>Lines 215 to 221.\<close>

definition cityCandidate :: "raw_address \<Rightarrow> string" where
  "cityCandidate a =
     (case firstTruthy [raw_city a, town a, village a, municipality a, county a] of
        Some c \<Rightarrow> c
      | None \<Rightarrow> ''Unknown City'')"

definition reverseGeocode ::
  "fetcher \<Rightarrow> LocationCoordinates \<Rightarrow> (LocationAddress, string) outcome \<times> call list" where
  "reverseGeocode fetch coords =
     (case fetch coords of
        Inl e \<Rightarrow> geocodeCatch e
      | Inr response \<Rightarrow>
          if \<not> ok response then geocodeCatch (JsError ''Geocoding service unavailable'')
          else
            (case json response of
               Inl e \<Rightarrow> geocodeCatch e
             | Inr body \<Rightarrow>
                 (case body_address body of
                    None \<Rightarrow> geocodeCatch (JsError ''No address found for this location'')
                  | Some a \<Rightarrow>
                      (let street_name = streetCandidate a;
                           city = cityCandidate a
                       in if street_name = [] then
                            \<lparr>data = None,
                             error = Some ''Unable to identify street name from location. Please enter manually.''\<rparr>
                          else
                            \<lparr>data = Some \<lparr>street_name = normalizeStreetName street_name,
                                          city = normalizeStreetName city,
                                          addr_state = raw_state a,
                                          postal_code = postcode a,
                                          full_address = display_name body\<rparr>,
                             error = None\<rparr>))),
      [Fetch])"

section \<open>The detection workflow\<close>

definition getErrorMessage :: "LocationState \<Rightarrow> string" where
  "getErrorMessage st =
     (case st of
        PermissionDenied \<Rightarrow> ''Location permission denied. Please enable location access in your browser settings or enter the location manually.''
      | Timeout \<Rightarrow> ''Location detection timed out. Please try again or enter the location manually.''
      | Unsupported \<Rightarrow> ''Your browser does not support location detection. Please enter the location manually.''
      | GeocodingFailed \<Rightarrow> ''Unable to identify street name from your location. Please enter it manually.''
      | _ \<Rightarrow> ''Unable to detect location. Please enter the location manually.'')"

definition coordFailure :: "LocationState \<Rightarrow> (LocationResult, string) detect_outcome" where
  "coordFailure st = \<lparr>data = None, error = Some (getErrorMessage st), state = st\<rparr>"

text \<open>The second early return: \<open>geoError || 'Failed to determine address'\<close>.\<close>

definition geoFailure :: "string option \<Rightarrow> (LocationResult, string) detect_outcome" where
  "geoFailure geoError =
     \<lparr>data = None,
      error = (if truthy geoError then geoError else Some ''Failed to determine address''),
      state = GeocodingFailed\<rparr>"

text \<open>
  \<open>coordError\<close> is a state name, hence truthy whenever it is not \<open>null\<close>, so
  \<open>coordError || !coordinates\<close> holds when there is an error or no data;
  \<open>geoError\<close> is a string, truthy when it is neither \<open>null\<close> nor empty.
\<close>

definition detectLocation ::
  "navigator \<Rightarrow> fetcher \<Rightarrow> (LocationResult, string) detect_outcome \<times> call list" where
  "detectLocation nav fetch =
     (let (r1, calls1) = getCurrentLocation nav
      in case error r1 of
           Some coordError \<Rightarrow> (coordFailure coordError, calls1)
         | None \<Rightarrow>
             (case data r1 of
                None \<Rightarrow> (coordFailure Error, calls1)
              | Some coords \<Rightarrow>
                  (let (r2, calls2) = reverseGeocode fetch coords
                   in case data r2 of
                        None \<Rightarrow> (geoFailure (error r2), calls1 @ calls2)
                      | Some addr \<Rightarrow>
                          if truthy (error r2) then (geoFailure (error r2), calls1 @ calls2)
                          else
                            (\<lparr>data = Some \<lparr>coordinates = coords, address = addr, source = Auto\<rparr>,
                              error = None,
                              state = Success\<rparr>, calls1 @ calls2))))"

section \<open>Manual entry\<close>



section \<open>The caller: \<open>requestLocation\<close> of the citizen dashboard\<close>

text \<open>
  The component holds \<open>locationState\<close>, \<open>'idle'\<close> when it is mounted. \<open>requestLocation\<close>
  is modelled by the list of the values \<open>locationState\<close> takes during one call, starting
  with the value \<open>st0\<close> it has when the call begins. \<open>getStreetStatistics\<close> is awaited
  inside the \<open>try\<close> block after the success state is set; \<open>stats\<close> tells whether it
  throws, and the \<open>catch\<close> block then sets \<open>'error'\<close>.
\<close>

definition requestLocation ::
  "LocationState \<Rightarrow> navigator \<Rightarrow> fetcher \<Rightarrow> (string \<Rightarrow> js_exn option) \<Rightarrow> LocationState list" where
  "requestLocation st0 nav fetch stats =
     (let r = fst (detectLocation nav fetch)
      in [st0, Detecting] @
         (case data r of
            None \<Rightarrow> [state r]
          | Some d \<Rightarrow>
              if truthy (error r) then [state r]
              else Success #
                   (case stats (street_name (address d)) of
                      None \<Rightarrow> []
                    | Some e \<Rightarrow> [Error])))"

section \<open>Concrete inputs\<close>

text \<open>An address object without any field, a geocoder that answers \<open>200\<close> with a given
  address, geocoders that fail, a platform fix, and a statistics query that does not throw.\<close>

definition emptyAddress :: raw_address where
  "emptyAddress =
     \<lparr>road = None, street = None, pedestrian = None, footway = None, path = None,
      highway = None, neighbourhood = None, suburb = None, district = None, building = None,
      raw_city = None, town = None, village = None, municipality = None, county = None,
      raw_state = None, postcode = None\<rparr>"

definition respondWith :: "raw_address \<Rightarrow> fetcher" where
  "respondWith a coords =
     Inr \<lparr>ok = True, json = Inr \<lparr>body_address = Some a, display_name = None\<rparr>\<rparr>"

definition respondUnavailable :: fetcher where
  "respondUnavailable coords = Inr \<lparr>ok = False, json = Inl JsOther\<rparr>"

definition respondNoAddress :: fetcher where
  "respondNoAddress coords =
     Inr \<lparr>ok = True, json = Inr \<lparr>body_address = None, display_name = None\<rparr>\<rparr>"

definition respondThrows :: fetcher where
  "respondThrows coords = Inl (JsError ''Failed to fetch'')"

definition bengaluru :: LocationCoordinates where
  "bengaluru = \<lparr>latitude = 12.9716, longitude = 77.5946, accuracy = Some 10\<rparr>"

definition fixBengaluru :: navigator where
  "fixBengaluru = Some (Position 12.9716 77.5946 10)"


definition commaAddress :: raw_address where
  "commaAddress = emptyAddress\<lparr>road := Some '', ,'', raw_city := Some ''x-st''\<rparr>"

definition mgRoadAddress :: raw_address where
  "mgRoadAddress = emptyAddress\<lparr>road := Some ''MG Road'', raw_city := Some ''Bengaluru''\<rparr>"

definition mgRoadResult :: LocationResult where
  "mgRoadResult =
     \<lparr>coordinates = bengaluru,
      address = \<lparr>street_name = ''MG Road'', city = ''Bengaluru'', addr_state = None,
                 postal_code = None, full_address = None\<rparr>,
      source = Auto\<rparr>"

definition noThrow :: "string \<Rightarrow> js_exn option" where
  "noThrow s = None"

section \<open>Words of plain text\<close>

text \<open>
  Notions used to reason about the normalizer. Plain text is made of word characters
  and whitespace only; \<open>hasWordChar\<close> says that it is not blank. \<open>wordList\<close> holds for
  a list of non-empty words of word characters, \<open>ciEq\<close> compares two words without
  regard to case, and \<open>expandWords\<close> is the chain of the nine expansions on one word.
  \<open>wholeWord R m\<close> says that on words separated by single blanks the pattern \<open>R\<close>
  matches exactly the words that satisfy \<open>m\<close>, each as a whole.
\<close>

definition plainText :: "string \<Rightarrow> bool" where
  "plainText s = list_all (\<lambda>c. isWordChar c \<or> isSpace c) s"

definition hasWordChar :: "string \<Rightarrow> bool" where
  "hasWordChar s = list_ex isWordChar s"

definition wordList :: "string list \<Rightarrow> bool" where
  "wordList ws = (\<forall>w\<in>set ws. w \<noteq> [] \<and> (\<forall>c\<in>set w. isWordChar c))"

definition ciEq :: "string \<Rightarrow> string \<Rightarrow> bool" where
  "ciEq x w = (toUpperCase x = toUpperCase w)"

definition endsWord :: "string \<Rightarrow> bool" where
  "endsWord rest = (rest = [] \<or> hd rest = CHR '' '')"

definition wholeWord :: "rx_item list \<Rightarrow> (string \<Rightarrow> bool) \<Rightarrow> bool" where
  "wholeWord R m =
     ((\<forall>q c s. isWordChar q \<and> isWordChar c \<longrightarrow> rx_match R (Some q) (c # s) = None)
      \<and> (\<forall>q s. isWordChar q \<longrightarrow> rx_match R (Some q) (CHR '' '' # s) = None)
      \<and> (\<forall>prev. rx_match R prev [] = None)
      \<and> (\<forall>prev x rest.
            \<not> isWordAt prev \<and> x \<noteq> [] \<and> (\<forall>c\<in>set x. isWordChar c) \<and> endsWord rest
            \<longrightarrow> rx_match R prev (x @ rest) = (if m x then Some (length x) else None)))"

definition expandWord :: "(string \<Rightarrow> bool) \<Rightarrow> string \<Rightarrow> string \<Rightarrow> string" where
  "expandWord m rep x = (if m x then rep else x)"

definition expandWords :: "string \<Rightarrow> string" where
  "expandWords x =
     expandWord (\<lambda>x. ciEq x ''MG'') ''MG''
      (expandWord (\<lambda>x. ciEq x ''Pl'') ''Place''
        (expandWord (\<lambda>x. ciEq x ''Ct'') ''Court''
          (expandWord (\<lambda>x. ciEq x ''Ln'') ''Lane''
            (expandWord (\<lambda>x. ciEq x ''Dr'') ''Drive''
              (expandWord (\<lambda>x. ciEq x ''Blvd'') ''Boulevard''
                (expandWord (\<lambda>x. ciEq x ''Ave'') ''Avenue''
                  (expandWord (\<lambda>x. ciEq x ''St'') ''Street''
                    (expandWord (\<lambda>x. ciEq x ''Rd'') ''Road'' x))))))))"

section \<open>Evaluation of the normalizer\<close>

lemma normalize_OAK_AVE: "normalizeStreetName ''OAK   AVE'' = ''OAK Avenue''"
  by code_simp

lemma normalize_123_main_st: "normalizeStreetName ''123 main st.'' = ''123 Main Street''"
  by code_simp

lemma normalize_a_st: "normalizeStreetName ''a-st'' = ''A-Street''"
  by code_simp

lemma normalize_A_Street: "normalizeStreetName ''A-Street'' = ''A-street''"
  by code_simp



lemma normalize_comma_space_comma: "normalizeStreetName '', ,'' = '', ''"
  by code_simp

lemma normalize_comma_space: "normalizeStreetName '', '' = []"
  by code_simp

lemma normalize_x_st: "normalizeStreetName ''x-st'' = ''X-Street''"
  by code_simp

lemma normalize_X_Street: "normalizeStreetName ''X-Street'' = ''X-street''"
  by code_simp

lemma normalize_MG_Road: "normalizeStreetName ''MG Road'' = ''MG Road''"
  by code_simp

lemma normalize_Bengaluru: "normalizeStreetName ''Bengaluru'' = ''Bengaluru''"
  by code_simp

lemma plain_OAK_AVE: "plainText ''OAK   AVE''"
  by code_simp

lemma plain_MG_Road: "plainText ''MG Road'' \<and> hasWordChar ''MG Road''"
  by code_simp

lemma plain_Bengaluru: "plainText ''Bengaluru'' \<and> hasWordChar ''Bengaluru''"
  by code_simp

section \<open>Extraction of the street and the city\<close>



lemma firstTruthy_nonempty: "firstTruthy fs = Some x \<Longrightarrow> x \<noteq> []"
  by (induction fs rule: firstTruthy.induct) (auto split: if_splits)

lemma cityCandidate_nonempty: "cityCandidate a \<noteq> []"
  by (auto simp: cityCandidate_def split: option.splits dest: firstTruthy_nonempty)









section \<open>The normalizer on plain text\<close>

subsection \<open>Character classes\<close>

lemma word_not_space: "isWordChar c \<Longrightarrow> \<not> isSpace c"
  by (auto simp: isWordChar_def isSpace_def isUpperChar_def isLowerChar_def isDigitChar_def Let_def)

lemma word_not_comma: "isWordChar c \<Longrightarrow> \<not> isComma c"
  by (auto simp: isWordChar_def isComma_def isUpperChar_def isLowerChar_def isDigitChar_def Let_def)

lemma word_not_dot: "isWordChar c \<Longrightarrow> \<not> isDot c"
  by (auto simp: isWordChar_def isDot_def isUpperChar_def isLowerChar_def isDigitChar_def Let_def)

lemma space_not_word: "\<not> isWordChar CHR '' ''"
  by (simp add: isWordChar_def isUpperChar_def isLowerChar_def isDigitChar_def)

lemma space_isSpace: "isSpace CHR '' ''"
  by (simp add: isSpace_def)

lemma space_not_comma: "\<not> isComma CHR '' ''"
  by (simp add: isComma_def)

subsection \<open>Patterns that cannot match\<close>

lemma replaceAll_Plus_none:
  "\<forall>c\<in>set s. \<not> p c \<Longrightarrow> replaceAll (Plus p # r) rep prev s = s"
  by (induction s arbitrary: prev) auto

lemma replaceFirst_One_none:
  "\<forall>c\<in>set s. \<not> p c \<Longrightarrow> replaceFirst (One p # r) rep prev s = s"
  by (induction s arbitrary: prev) auto

subsection \<open>Words joined by single blanks\<close>

lemma join_Cons: "ws \<noteq> [] \<Longrightarrow> join sep (w # ws) = w @ sep @ join sep ws"
  by (cases ws) auto

lemma set_join: "set (join sep ws) \<subseteq> set sep \<union> \<Union> (set ` set ws)"
  by (induction sep ws rule: join.induct) auto

lemma join_chars:
  assumes "wordList ws" "c \<in> set (join '' '' ws)"
  shows "isWordChar c \<or> c = CHR '' ''"
  using assms set_join [of "'' ''" ws] by (auto simp: wordList_def)

lemma join_no_comma: "wordList ws \<Longrightarrow> \<forall>c\<in>set (join '' '' ws). \<not> isComma c"
  by (auto dest!: join_chars simp: word_not_comma space_not_comma)

lemma collapseCommas_join: "wordList ws \<Longrightarrow> collapseCommas (join '' '' ws) = join '' '' ws"
  unfolding collapseCommas_def rx_commas_def
  by (rule replaceAll_Plus_none) (rule join_no_comma)

lemma stripTrailingComma_join: "wordList ws \<Longrightarrow> stripTrailingComma (join '' '' ws) = join '' '' ws"
  unfolding stripTrailingComma_def rx_trailing_comma_def
  by (rule replaceFirst_One_none) (rule join_no_comma)

subsection \<open>Collapsing whitespace\<close>

lemma spaces_word: "\<forall>c\<in>set x. \<not> isSpace c \<Longrightarrow>
   replaceAll rx_spaces rep prev (x @ rest) = x @ replaceAll rx_spaces rep (if x = [] then prev else Some (last x)) rest"
  by (induction x arbitrary: prev) (auto simp: rx_spaces_def)

lemma spaces_single:
  "isSpace c \<Longrightarrow> rest = [] \<or> \<not> isSpace (hd rest) \<Longrightarrow>
    replaceAll rx_spaces rep prev (c # rest) = rep @ replaceAll rx_spaces rep (Some c) rest"
  by (cases rest) (auto simp: rx_spaces_def)

lemma wordList_Cons: "wordList (w # ws) = (w \<noteq> [] \<and> (\<forall>c\<in>set w. isWordChar c) \<and> wordList ws)"
  by (auto simp: wordList_def)

lemma hd_join: "w \<noteq> [] \<Longrightarrow> hd (join sep (w # ws)) = hd w"
  by (cases ws) auto

lemma join_Nil_iff: "wordList ws \<Longrightarrow> (join sep ws = []) = (ws = [])"
  by (induction sep ws rule: join.induct) (auto simp: wordList_def)

lemma collapse_join: "wordList ws \<Longrightarrow> replaceAll rx_spaces '' '' prev (join '' '' ws) = join '' '' ws"
proof (induction ws arbitrary: prev)
  case Nil
  then show ?case by (simp add: rx_spaces_def)
next
  case (Cons w ws)
  then have w: "w \<noteq> []" "\<forall>c\<in>set w. \<not> isSpace c" and ws: "wordList ws"
    by (auto simp: wordList_Cons word_not_space)
  show ?case
  proof (cases ws)
    case Nil
    then show ?thesis using spaces_word [OF w(2), of "'' ''" prev "[]"] by (simp add: rx_spaces_def)
  next
    case (Cons v vs)
    then have "\<not> isSpace (hd (join '' '' ws))"
      using ws by (simp add: hd_join wordList_Cons word_not_space)
    then show ?thesis
      using Cons spaces_word [OF w(2), of "'' ''" prev "'' '' @ join '' '' ws"] w(1)
        spaces_single [of "CHR '' ''" "join '' '' ws" "'' ''" "Some (last w)"] Cons.IH [OF ws]
      by (simp add: space_isSpace)
  qed
qed

lemma collapseSpaces_join: "wordList ws \<Longrightarrow> collapseSpaces (join '' '' ws) = join '' '' ws"
  by (simp add: collapseSpaces_def collapse_join)

subsection \<open>Trimming\<close>

lemma join_last_nonempty: "ws \<noteq> [] \<Longrightarrow> last ws \<noteq> [] \<Longrightarrow> join sep ws \<noteq> []"
  by (induction sep ws rule: join.induct) auto

lemma last_join: "ws \<noteq> [] \<Longrightarrow> last ws \<noteq> [] \<Longrightarrow> last (join sep ws) = last (last ws)"
proof (induction sep ws rule: join.induct)
  case (3 sep w v ws)
  then have "join sep (v # ws) \<noteq> []" by (intro join_last_nonempty) auto
  then show ?case using 3 by simp
qed auto

lemma trim_id: "s = [] \<or> (\<not> isSpace (hd s) \<and> \<not> isSpace (last s)) \<Longrightarrow> trim s = s"
proof (cases s)
  case Nil
  then show ?thesis by (simp add: trim_def)
next
  case (Cons c cs)
  assume "s = [] \<or> (\<not> isSpace (hd s) \<and> \<not> isSpace (last s))"
  with Cons have h: "\<not> isSpace c" "\<not> isSpace (last s)" by auto
  have 1: "dropWhile isSpace s = s" using Cons h by simp
  have "s \<noteq> []" using Cons by simp
  then have "rev s = last s # rev (butlast s)"
    by (metis append_butlast_last_id rev.simps(2) rev_rev_ident rev_swap)
  then have 2: "dropWhile isSpace (rev s) = rev s" using h by (metis dropWhile.simps(2))
  show ?thesis by (simp add: trim_def 1 2)
qed

lemma trim_join: "wordList ws \<Longrightarrow> trim (join '' '' ws) = join '' '' ws"
proof (cases ws)
  case Nil
  then show ?thesis by (simp add: trim_def)
next
  case (Cons w vs)
  assume wl: "wordList ws"
  then have "last ws \<in> set ws" using Cons by simp
  then have l: "last ws \<noteq> []" "isWordChar (last (last ws))" using wl by (auto simp: wordList_def)
  have "isWordChar (hd w)" "w \<noteq> []" using wl Cons by (auto simp: wordList_Cons)
  then show ?thesis using Cons l by (intro trim_id) (simp add: hd_join last_join word_not_space del: join.simps)
qed

subsection \<open>Splitting and title case\<close>

lemma split_nonempty: "split d s \<noteq> []"
  by (induction s) (auto split: list.splits)

lemma split_word:
  "\<forall>c\<in>set x. c \<noteq> d \<Longrightarrow> split d (x @ rest) = (x @ hd (split d rest)) # tl (split d rest)"
proof (induction x)
  case Nil
  then show ?case using split_nonempty [of d rest] by simp
next
  case (Cons a x)
  then show ?case by (auto split: list.splits)
qed

lemma word_no_blank: "\<forall>c\<in>set w. isWordChar c \<Longrightarrow> \<forall>c\<in>set w. c \<noteq> CHR '' ''"
  using space_not_word by auto

lemma split_join: "wordList ws \<Longrightarrow> ws \<noteq> [] \<Longrightarrow> split CHR '' '' (join '' '' ws) = ws"
proof (induction "'' ''" ws rule: join.induct)
  case 1
  then show ?case by simp
next
  case (2 w)
  then have "\<forall>c\<in>set w. c \<noteq> CHR '' ''" by (auto simp: wordList_def dest: word_no_blank)
  from split_word [OF this, of "[]"] show ?case by simp
next
  case (3 w v ws)
  then have "\<forall>c\<in>set w. c \<noteq> CHR '' ''" by (auto simp: wordList_def dest: word_no_blank)
  from split_word [OF this, of "'' '' @ join '' '' (v # ws)"] 3 show ?case
    by (simp add: wordList_Cons)
qed

lemma titleCase_join:
  "wordList ws \<Longrightarrow> titleCase (join '' '' ws) = join '' '' (map titleCaseWord ws)"
  by (cases "ws = []") (simp_all add: titleCase_def split_join titleCaseWord_def toUpperCase_def)

lemma upper_upper: "toUpperChar (toUpperChar c) = toUpperChar c"
  by (auto simp: toUpperChar_def isLowerChar_def Let_def)

lemma lower_lower: "toLowerChar (toLowerChar c) = toLowerChar c"
  by (auto simp: toLowerChar_def isUpperChar_def Let_def)

lemma upper_word: "isWordChar c \<Longrightarrow> isWordChar (toUpperChar c)"
  by (auto simp: toUpperChar_def isWordChar_def isUpperChar_def isLowerChar_def isDigitChar_def Let_def)

lemma lower_word: "isWordChar c \<Longrightarrow> isWordChar (toLowerChar c)"
  by (auto simp: toLowerChar_def isWordChar_def isUpperChar_def isLowerChar_def isDigitChar_def Let_def)

lemma titleCaseWord_Cons:
  "titleCaseWord (c # cs) =
     (if length cs \<le> 2 \<and> c # cs = toUpperCase (c # cs) then c # cs
      else toUpperChar c # toLowerCase cs)"
  by (auto simp: titleCaseWord_def toUpperCase_def)

lemma titleCaseWord_idem: "titleCaseWord (titleCaseWord w) = titleCaseWord w"
proof (cases w)
  case Nil
  then show ?thesis by (simp add: titleCaseWord_def toUpperCase_def)
next
  case (Cons c cs)
  then show ?thesis
    by (simp add: titleCaseWord_Cons toLowerCase_def toUpperCase_def upper_upper lower_lower)
qed

lemma titleCaseWord_word:
  "w \<noteq> [] \<Longrightarrow> \<forall>c\<in>set w. isWordChar c \<Longrightarrow>
     titleCaseWord w \<noteq> [] \<and> (\<forall>c\<in>set (titleCaseWord w). isWordChar c)"
  by (cases w) (auto simp: titleCaseWord_Cons toLowerCase_def upper_word lower_word)

lemma wordList_title: "wordList ws \<Longrightarrow> wordList (map titleCaseWord ws)"
  using titleCaseWord_word by (auto simp: wordList_def)

subsection \<open>Whole-word patterns on joined words\<close>

lemma inside_word:
  assumes "wholeWord R m" "isWordChar q" "\<forall>c\<in>set cs. isWordChar c" "endsWord rest"
  shows "replaceAll R rep (Some q) (cs @ rest) = cs @ replaceAll R rep (Some (last (q # cs))) rest"
  using assms(2,3)
proof (induction cs arbitrary: q)
  case Nil
  then show ?case by simp
next
  case (Cons c cs)
  then have "rx_match R (Some q) (c # cs @ rest) = None"
    using assms(1) by (simp add: wholeWord_def)
  then show ?case using Cons by simp
qed

lemma at_word:
  assumes "wholeWord R m" "\<not> isWordAt prev" "x \<noteq> []" "\<forall>c\<in>set x. isWordChar c" "endsWord rest"
  shows "replaceAll R rep prev (x @ rest) = expandWord m rep x @ replaceAll R rep (Some (last x)) rest"
proof -
  from assms have rm: "rx_match R prev (x @ rest) = (if m x then Some (length x) else None)"
    unfolding wholeWord_def by blast
  obtain c cs where x: "x = c # cs" using assms(3) by (cases x) auto
  show ?thesis
  proof (cases "m x")
    case True
    then show ?thesis using rm x by (simp add: expandWord_def)
  next
    case False
    have "replaceAll R rep (Some c) (cs @ rest) = cs @ replaceAll R rep (Some (last (c # cs))) rest"
      using assms x by (intro inside_word) auto
    then show ?thesis using rm x False by (simp add: expandWord_def)
  qed
qed

lemma at_blank:
  assumes "wholeWord R m" "isWordChar q"
  shows "replaceAll R rep (Some q) (CHR '' '' # s) = CHR '' '' # replaceAll R rep (Some CHR '' '') s"
proof -
  have "rx_match R (Some q) (CHR '' '' # s) = None" using assms by (simp add: wholeWord_def)
  then show ?thesis by simp
qed

lemma at_end: "wholeWord R m \<Longrightarrow> replaceAll R rep prev [] = []"
  by (simp add: wholeWord_def)

lemma replaceAll_words:
  assumes "wholeWord R m"
  shows "wordList ws \<Longrightarrow> \<not> isWordAt prev \<Longrightarrow>
    replaceAll R rep prev (join '' '' ws) = join '' '' (map (expandWord m rep) ws)"
proof (induction "'' ''" ws arbitrary: prev rule: join.induct)
  case 1
  then show ?case using at_end [OF assms] by (simp del: replaceAll.simps)
next
  case (2 w)
  then have w: "w \<noteq> []" "\<forall>c\<in>set w. isWordChar c" by (auto simp: wordList_def)
  from at_word [OF assms 2(2) w, of "[]" rep] show ?case
    using at_end [OF assms] by (simp add: endsWord_def del: replaceAll.simps)
next
  case (3 w v ws)
  then have w: "w \<noteq> []" "\<forall>c\<in>set w. isWordChar c" and vs: "wordList (v # ws)"
    by (auto simp: wordList_def)
  have lw: "isWordChar (last w)" using w by simp
  have "replaceAll R rep prev (w @ CHR '' '' # join '' '' (v # ws))
      = expandWord m rep w @ replaceAll R rep (Some (last w)) (CHR '' '' # join '' '' (v # ws))"
    using at_word [OF assms 3(3) w, of "CHR '' '' # join '' '' (v # ws)" rep]
    by (simp add: endsWord_def)
  also have "replaceAll R rep (Some (last w)) (CHR '' '' # join '' '' (v # ws))
      = CHR '' '' # replaceAll R rep (Some CHR '' '') (join '' '' (v # ws))"
    using at_blank [OF assms lw] by simp
  also have "replaceAll R rep (Some CHR '' '') (join '' '' (v # ws))
      = join '' '' (map (expandWord m rep) (v # ws))"
    using 3(1) [OF vs] by (simp add: isWordAt_def space_not_word)
  finally show ?case by simp
qed

subsection \<open>The abbreviation patterns match whole words\<close>

lemma ciEq_Cons: "ciEq (c # cs) (a # w) = (ci a c \<and> ciEq cs w)"
  by (auto simp: ciEq_def ci_def toUpperCase_def)

lemma ciEq_Nil: "ciEq [] w = (w = [])" "ciEq x [] = (x = [])"
  by (auto simp: ciEq_def toUpperCase_def)

lemma ciEq_length: "ciEq x w \<Longrightarrow> length x = length w"
  unfolding ciEq_def toUpperCase_def by (metis length_map)

lemma lits_match:
  "rx_match (map (\<lambda>a. One (ci a)) w @ r) prev s =
     (if length w \<le> length s \<and> ciEq (take (length w) s) w
      then map_option (\<lambda>n. length w + n)
             (rx_match r (if w = [] then prev else Some (s ! (length w - 1))) (drop (length w) s))
      else None)"
proof (induction w arbitrary: prev s)
  case Nil
  show ?case by (cases "rx_match r prev s") (simp_all add: ciEq_Nil)
next
  case (Cons a w)
  show ?case
  proof (cases s)
    case Nil
    then show ?thesis by simp
  next
    fix c cs assume s: "s = c # cs"
    have step: "rx_match (map (\<lambda>a. One (ci a)) (a # w) @ r) prev (c # cs)
        = (if ci a c then map_option Suc (rx_match (map (\<lambda>a. One (ci a)) w @ r) (Some c) cs)
           else None)"
      by simp
    show ?thesis
      unfolding s step Cons.IH [of "Some c" cs]
      by (cases "w = []") (auto simp: ciEq_Cons ciEq_Nil option.map_comp comp_def)
  qed
qed

lemma ci_word_blank: "isWordChar a \<Longrightarrow> \<not> ci a CHR '' ''"
  using upper_word [of a] space_not_word
  by (auto simp: ci_def toUpperChar_def isLowerChar_def)

lemma tail_match:
  "isWordChar q \<Longrightarrow> endsWord rest \<Longrightarrow> rx_match [WordB, Opt isDot] (Some q) rest = Some 0"
  by (cases rest) (auto simp: endsWord_def isWordAt_def nextChar_def space_not_word isDot_def)

lemma tail_inside:
  "isWordChar q \<Longrightarrow> isWordChar c \<Longrightarrow> rx_match (WordB # r) (Some q) (c # s) = None"
  by (simp add: isWordAt_def nextChar_def)

lemma abbrev_start:
  assumes w: "w \<noteq> []" "\<forall>a\<in>set w. isWordChar a"
    and x: "x \<noteq> []" "\<forall>c\<in>set x. isWordChar c" and p: "\<not> isWordAt prev" and rest: "endsWord rest"
  shows "rx_match (rx_abbrev w) prev (x @ rest) = (if ciEq x w then Some (length x) else None)"
proof -
  let ?n = "length w"
  let ?c = "?n \<le> length (x @ rest) \<and> ciEq (take ?n (x @ rest)) w"
  let ?i = "rx_match [WordB, Opt isDot] (Some ((x @ rest) ! (?n - 1))) (drop ?n (x @ rest))"
  have start: "rx_match (rx_abbrev w) prev (x @ rest)
      = rx_match (map (\<lambda>a. One (ci a)) w @ [WordB, Opt isDot]) prev (x @ rest)"
    using x p by (cases x) (auto simp: rx_abbrev_def isWordAt_def nextChar_def)
  have lm: "rx_match (map (\<lambda>a. One (ci a)) w @ [WordB, Opt isDot]) prev (x @ rest) =
     (if ?c then map_option (\<lambda>k. ?n + k) ?i else None)"
    using lits_match [of w "[WordB, Opt isDot]" prev "x @ rest"] w(1) by (simp del: rx_match.simps)
  consider (short) "length x < ?n" | (same) "length x = ?n" | (long) "?n < length x"
    by linarith
  then show ?thesis
  proof cases
    case short
    have c: "\<not> ?c"
    proof
      assume h: "?c"
      then have "rest \<noteq> []" using short by auto
      then obtain rs where r: "rest = CHR '' '' # rs"
        using rest by (cases rest) (auto simp: endsWord_def)
      have "toUpperCase (take ?n (x @ rest)) ! length x = toUpperCase w ! length x"
        using h by (simp add: ciEq_def)
      then have "toUpperChar CHR '' '' = toUpperChar (w ! length x)"
        using short h r by (simp add: toUpperCase_def nth_append)
      moreover have "isWordChar (w ! length x)" using w short by simp
      ultimately show False using ci_word_blank [of "w ! length x"] by (simp add: ci_def)
    qed
    have "\<not> ciEq x w" using short ciEq_length by fastforce
    then show ?thesis unfolding start lm using c by (simp only: if_False)
  next
    case same
    then have c: "?c = ciEq x w" by auto
    have "0 < length x" using x(1) by simp
    then have q: "(x @ rest) ! (?n - 1) = last x"
      using same x(1) by (simp add: nth_append last_conv_nth)
    have "isWordChar (last x)" using x by simp
    then have "rx_match [WordB, Opt isDot] (Some (last x)) rest = Some 0"
      using rest by (rule tail_match)
    then have i: "?i = Some 0" using q same by (simp del: rx_match.simps)
    show ?thesis unfolding start lm c i using same by simp
  next
    case long
    have n0: "0 < ?n" using w(1) by simp
    obtain c cs where d: "drop ?n x = c # cs" using long by (cases "drop ?n x") auto
    then have "c \<in> set x" by (metis in_set_dropD list.set_intros(1))
    then have "isWordChar c" using x by simp
    moreover have "isWordChar (x ! (?n - 1))" using x long by simp
    ultimately have "rx_match [WordB, Opt isDot] (Some (x ! (?n - 1))) (c # cs @ rest) = None"
      by (rule tail_inside [rotated])
    moreover have "?n - 1 < length x" using long by arith
    then have "(x @ rest) ! (?n - 1) = x ! (?n - 1)" by (simp only: nth_append if_True)
    moreover have "drop ?n (x @ rest) = c # cs @ rest" using long d by simp
    ultimately have i: "?i = None" by (simp only:)
    have "\<not> ciEq x w" using long ciEq_length by fastforce
    then show ?thesis unfolding start lm i by simp
  qed
qed

lemma wholeWord_abbrev:
  assumes w: "w \<noteq> []" "\<forall>a\<in>set w. isWordChar a"
  shows "wholeWord (rx_abbrev w) (\<lambda>x. ciEq x w)"
  unfolding wholeWord_def
proof (intro conjI allI impI)
  fix q c s assume "isWordChar q \<and> isWordChar c"
  then show "rx_match (rx_abbrev w) (Some q) (c # s) = None"
    unfolding rx_abbrev_def by (intro tail_inside) auto
next
  fix q s assume q: "isWordChar q"
  obtain a v where av: "w = a # v" using w(1) by (cases w) auto
  then have "\<not> ci a CHR '' ''" using w(2) by (simp add: ci_word_blank)
  then show "rx_match (rx_abbrev w) (Some q) (CHR '' '' # s) = None"
    using av by (simp add: rx_abbrev_def)
next
  fix prev
  obtain a v where av: "w = a # v" using w(1) by (cases w) auto
  then show "rx_match (rx_abbrev w) prev [] = None"
    by (simp add: rx_abbrev_def)
next
  fix prev x rest
  assume "\<not> isWordAt prev \<and> x \<noteq> [] \<and> (\<forall>c\<in>set x. isWordChar c) \<and> endsWord rest"
  then show "rx_match (rx_abbrev w) prev (x @ rest) = (if ciEq x w then Some (length x) else None)"
    using abbrev_start [OF w] by blast
qed

lemma word_shapes:
  obtains (none) "x = []" | (one) a where "x = [a]" | (two) a b where "x = [a, b]"
    | (more) a b c cs where "x = a # b # c # cs"
  by (cases x rule: list.exhaust; cases "tl x"; cases "tl (tl x)") auto

lemma ends_cases: "endsWord rest \<Longrightarrow> rest = [] \<or> (\<exists>rs. rest = CHR '' '' # rs)"
  by (cases rest) (auto simp: endsWord_def)

lemma ci_M_blank: "\<not> ci CHR ''M'' CHR '' ''" "\<not> ci CHR ''G'' CHR '' ''"
  by (simp_all add: ci_def toUpperChar_def isLowerChar_def)

lemma MG_start:
  assumes x: "x \<noteq> []" "\<forall>c\<in>set x. isWordChar c" and p: "\<not> isWordAt prev" and rest: "endsWord rest"
  shows "rx_match rx_MG prev (x @ rest) = (if ciEq x ''MG'' then Some (length x) else None)"
proof (cases x rule: word_shapes)
  case none
  then show ?thesis using x by simp
next
  case (one a)
  then show ?thesis using x p ends_cases [OF rest]
    by (auto simp: rx_MG_def isWordAt_def nextChar_def ciEq_Cons ciEq_Nil ci_M_blank isDot_def)
next
  case (two a b)
  then show ?thesis using x p ends_cases [OF rest]
    by (auto simp: rx_MG_def isWordAt_def nextChar_def ciEq_Cons ciEq_Nil ci_M_blank isDot_def
          space_not_word dest: word_not_dot)
next
  case (more a b c cs)
  then show ?thesis using x p
    by (auto simp: rx_MG_def isWordAt_def nextChar_def ciEq_Cons ciEq_Nil dest: word_not_dot)
qed

lemma wholeWord_MG: "wholeWord rx_MG (\<lambda>x. ciEq x ''MG'')"
  unfolding wholeWord_def
proof (intro conjI allI impI)
  fix q c s assume "isWordChar q \<and> isWordChar c"
  then show "rx_match rx_MG (Some q) (c # s) = None"
    unfolding rx_MG_def by (intro tail_inside) auto
next
  fix q s assume q: "isWordChar q"
  show "rx_match rx_MG (Some q) (CHR '' '' # s) = None"
    by (simp add: rx_MG_def ci_M_blank)
next
  fix prev
  show "rx_match rx_MG prev [] = None"
    by (simp add: rx_MG_def)
next
  fix prev x rest
  assume "\<not> isWordAt prev \<and> x \<noteq> [] \<and> (\<forall>c\<in>set x. isWordChar c) \<and> endsWord rest"
  then show "rx_match rx_MG prev (x @ rest) = (if ciEq x ''MG'' then Some (length x) else None)"
    using MG_start by blast
qed

subsection \<open>The chain of expansions, word by word\<close>

lemma isWordChar_letters:
  "\<forall>a\<in>set ''RoadStreetAvenueBoulevardDriveLaneCourtPlaceMGBlvdLnCt''. isWordChar a"
  by (simp add: isWordChar_def isUpperChar_def isLowerChar_def)

lemma wordList_expand:
  "wordList ws \<Longrightarrow> rep \<noteq> [] \<Longrightarrow> \<forall>c\<in>set rep. isWordChar c \<Longrightarrow> wordList (map (expandWord m rep) ws)"
  by (auto simp: wordList_def expandWord_def)

lemma expand_join:
  assumes "wordList ws" "w \<noteq> []" "\<forall>a\<in>set w. isWordChar a"
  shows "expand w rep (join '' '' ws) = join '' '' (map (expandWord (\<lambda>x. ciEq x w) rep) ws)"
  unfolding expand_def
  using replaceAll_words [OF wholeWord_abbrev [OF assms(2,3)] assms(1), of None rep]
  by (simp add: isWordAt_def)

lemma MG_join:
  assumes "wordList ws"
  shows "replaceAll rx_MG rep None (join '' '' ws) = join '' '' (map (expandWord (\<lambda>x. ciEq x ''MG'') rep) ws)"
  using replaceAll_words [OF wholeWord_MG assms, of None rep]
  by (simp add: isWordAt_def)

lemma expandAbbreviations_join:
  assumes "wordList ws"
  shows "expandAbbreviations (join '' '' ws) = join '' '' (map expandWords ws)
     \<and> wordList (map expandWords ws)"
proof -
  note l = isWordChar_letters
  let ?f1 = "expandWord (\<lambda>x. ciEq x ''Rd'') ''Road''"
  let ?f2 = "expandWord (\<lambda>x. ciEq x ''St'') ''Street''"
  let ?f3 = "expandWord (\<lambda>x. ciEq x ''Ave'') ''Avenue''"
  let ?f4 = "expandWord (\<lambda>x. ciEq x ''Blvd'') ''Boulevard''"
  let ?f5 = "expandWord (\<lambda>x. ciEq x ''Dr'') ''Drive''"
  let ?f6 = "expandWord (\<lambda>x. ciEq x ''Ln'') ''Lane''"
  let ?f7 = "expandWord (\<lambda>x. ciEq x ''Ct'') ''Court''"
  let ?f8 = "expandWord (\<lambda>x. ciEq x ''Pl'') ''Place''"
  let ?f9 = "expandWord (\<lambda>x. ciEq x ''MG'') ''MG''"
  have w1: "wordList (map ?f1 ws)" using assms l by - (rule wordList_expand, simp_all)
  have w2: "wordList (map ?f2 (map ?f1 ws))" using w1 l by - (rule wordList_expand, simp_all)
  have w3: "wordList (map ?f3 (map ?f2 (map ?f1 ws)))" using w2 l by - (rule wordList_expand, simp_all)
  have w4: "wordList (map ?f4 (map ?f3 (map ?f2 (map ?f1 ws))))"
    using w3 l by - (rule wordList_expand, simp_all)
  have w5: "wordList (map ?f5 (map ?f4 (map ?f3 (map ?f2 (map ?f1 ws)))))"
    using w4 l by - (rule wordList_expand, simp_all)
  have w6: "wordList (map ?f6 (map ?f5 (map ?f4 (map ?f3 (map ?f2 (map ?f1 ws))))))"
    using w5 l by - (rule wordList_expand, simp_all)
  have w7: "wordList (map ?f7 (map ?f6 (map ?f5 (map ?f4 (map ?f3 (map ?f2 (map ?f1 ws)))))))"
    using w6 l by - (rule wordList_expand, simp_all)
  have w8: "wordList (map ?f8 (map ?f7 (map ?f6 (map ?f5 (map ?f4 (map ?f3 (map ?f2 (map ?f1 ws))))))))"
    using w7 l by - (rule wordList_expand, simp_all)
  have w9: "wordList (map ?f9 (map ?f8 (map ?f7 (map ?f6 (map ?f5 (map ?f4 (map ?f3 (map ?f2 (map ?f1 ws)))))))))"
    using w8 l by - (rule wordList_expand, simp_all)
  have e1: "expand ''Rd'' ''Road'' (join '' '' ws) = join '' '' (map ?f1 ws)"
    using assms l by - (rule expand_join, simp_all)
  have e2: "expand ''St'' ''Street'' (join '' '' (map ?f1 ws)) = join '' '' (map ?f2 (map ?f1 ws))"
    using w1 l by - (rule expand_join, simp_all)
  have e3: "expand ''Ave'' ''Avenue'' (join '' '' (map ?f2 (map ?f1 ws)))
      = join '' '' (map ?f3 (map ?f2 (map ?f1 ws)))"
    using w2 l by - (rule expand_join, simp_all)
  have e4: "expand ''Blvd'' ''Boulevard'' (join '' '' (map ?f3 (map ?f2 (map ?f1 ws))))
      = join '' '' (map ?f4 (map ?f3 (map ?f2 (map ?f1 ws))))"
    using w3 l by - (rule expand_join, simp_all)
  have e5: "expand ''Dr'' ''Drive'' (join '' '' (map ?f4 (map ?f3 (map ?f2 (map ?f1 ws)))))
      = join '' '' (map ?f5 (map ?f4 (map ?f3 (map ?f2 (map ?f1 ws)))))"
    using w4 l by - (rule expand_join, simp_all)
  have e6: "expand ''Ln'' ''Lane'' (join '' '' (map ?f5 (map ?f4 (map ?f3 (map ?f2 (map ?f1 ws))))))
      = join '' '' (map ?f6 (map ?f5 (map ?f4 (map ?f3 (map ?f2 (map ?f1 ws))))))"
    using w5 l by - (rule expand_join, simp_all)
  have e7: "expand ''Ct'' ''Court''
        (join '' '' (map ?f6 (map ?f5 (map ?f4 (map ?f3 (map ?f2 (map ?f1 ws)))))))
      = join '' '' (map ?f7 (map ?f6 (map ?f5 (map ?f4 (map ?f3 (map ?f2 (map ?f1 ws)))))))"
    using w6 l by - (rule expand_join, simp_all)
  have e8: "expand ''Pl'' ''Place''
        (join '' '' (map ?f7 (map ?f6 (map ?f5 (map ?f4 (map ?f3 (map ?f2 (map ?f1 ws))))))))
      = join '' '' (map ?f8 (map ?f7 (map ?f6 (map ?f5 (map ?f4 (map ?f3 (map ?f2 (map ?f1 ws))))))))"
    using w7 l by - (rule expand_join, simp_all)
  have e9: "replaceAll rx_MG ''MG'' None
        (join '' '' (map ?f8 (map ?f7 (map ?f6 (map ?f5 (map ?f4 (map ?f3 (map ?f2 (map ?f1 ws)))))))))
      = join '' '' (map ?f9 (map ?f8 (map ?f7 (map ?f6 (map ?f5 (map ?f4 (map ?f3 (map ?f2 (map ?f1 ws)))))))))"
    using w8 by (rule MG_join)
  have m: "map ?f9 (map ?f8 (map ?f7 (map ?f6 (map ?f5 (map ?f4 (map ?f3 (map ?f2 (map ?f1 ws))))))))
      = map expandWords ws"
    by (simp add: expandWords_def comp_def)
  have "expandAbbreviations (join '' '' ws) = join '' '' (map expandWords ws)"
    unfolding expandAbbreviations_def e1 e2 e3 e4 e5 e6 e7 e8 e9 m ..
  moreover have "wordList (map expandWords ws)" using w9 unfolding m .
  ultimately show ?thesis ..
qed

subsection \<open>Expanded words are stable\<close>

lemma up_consts:
  "toUpperCase ''Rd'' = ''RD''" "toUpperCase ''St'' = ''ST''" "toUpperCase ''Ave'' = ''AVE''"
  "toUpperCase ''Blvd'' = ''BLVD''" "toUpperCase ''Dr'' = ''DR''" "toUpperCase ''Ln'' = ''LN''"
  "toUpperCase ''Ct'' = ''CT''" "toUpperCase ''Pl'' = ''PL''" "toUpperCase ''MG'' = ''MG''"
  "toUpperCase ''Road'' = ''ROAD''" "toUpperCase ''Street'' = ''STREET''"
  "toUpperCase ''Avenue'' = ''AVENUE''" "toUpperCase ''Boulevard'' = ''BOULEVARD''"
  "toUpperCase ''Drive'' = ''DRIVE''" "toUpperCase ''Lane'' = ''LANE''"
  "toUpperCase ''Court'' = ''COURT''" "toUpperCase ''Place'' = ''PLACE''"
  by code_simp+

lemma expandWords_chain:
  "expandWords z =
     (if ciEq z ''Rd'' then ''Road''
      else if ciEq z ''St'' then ''Street''
      else if ciEq z ''Ave'' then ''Avenue''
      else if ciEq z ''Blvd'' then ''Boulevard''
      else if ciEq z ''Dr'' then ''Drive''
      else if ciEq z ''Ln'' then ''Lane''
      else if ciEq z ''Ct'' then ''Court''
      else if ciEq z ''Pl'' then ''Place''
      else if ciEq z ''MG'' then ''MG''
      else z)"
  by (simp add: expandWords_def expandWord_def ciEq_def up_consts)

lemma expandWords_fixed:
  "expandWords ''Road'' = ''Road''" "expandWords ''Street'' = ''Street''"
  "expandWords ''Avenue'' = ''Avenue''" "expandWords ''Boulevard'' = ''Boulevard''"
  "expandWords ''Drive'' = ''Drive''" "expandWords ''Lane'' = ''Lane''"
  "expandWords ''Court'' = ''Court''" "expandWords ''Place'' = ''Place''"
  "expandWords ''MG'' = ''MG''"
  by (simp_all add: expandWords_chain ciEq_def up_consts)

lemma title_fixed:
  "titleCaseWord ''Road'' = ''Road''" "titleCaseWord ''Street'' = ''Street''"
  "titleCaseWord ''Avenue'' = ''Avenue''" "titleCaseWord ''Boulevard'' = ''Boulevard''"
  "titleCaseWord ''Drive'' = ''Drive''" "titleCaseWord ''Lane'' = ''Lane''"
  "titleCaseWord ''Court'' = ''Court''" "titleCaseWord ''Place'' = ''Place''"
  "titleCaseWord ''MG'' = ''MG''"
  by (simp_all add: titleCaseWord_def toUpperCase_def toLowerCase_def toUpperChar_def
      toLowerChar_def isLowerChar_def isUpperChar_def)

lemma expandWords_idem: "expandWords (expandWords z) = expandWords z"
  by (subst (2 3) expandWords_chain) (simp add: expandWords_fixed, simp add: expandWords_chain)

lemma expandWords_title: "titleCaseWord z = z \<Longrightarrow> titleCaseWord (expandWords z) = expandWords z"
  by (subst (1 2) expandWords_chain) (simp add: title_fixed)

lemma normalize_join:
  assumes "wordList ws"
  shows "normalizeStreetName (join '' '' ws) = join '' '' (map (expandWords \<circ> titleCaseWord) ws)"
proof (cases "ws = []")
  case True
  then show ?thesis by (simp add: normalizeStreetName_def)
next
  case False
  then have ne: "join '' '' ws \<noteq> []" using assms by (simp add: join_Nil_iff)
  have t: "wordList (map titleCaseWord ws)" using assms by (rule wordList_title)
  show ?thesis
    unfolding normalizeStreetName_def
    using ne assms t expandAbbreviations_join [OF t]
    by (simp add: trim_join collapseCommas_join collapseSpaces_join titleCase_join
        stripTrailingComma_join)
qed

lemma normalize_join_fixed:
  assumes "wordList ws"
  shows "normalizeStreetName (normalizeStreetName (join '' '' ws)) = normalizeStreetName (join '' '' ws)"
proof -
  have t: "wordList (map titleCaseWord ws)" using assms by (rule wordList_title)
  have "wordList (map expandWords (map titleCaseWord ws))"
    using expandAbbreviations_join [OF t] by simp
  then have w: "wordList (map (expandWords \<circ> titleCaseWord) ws)" by simp
  have "map (expandWords \<circ> titleCaseWord) (map (expandWords \<circ> titleCaseWord) ws)
      = map (expandWords \<circ> titleCaseWord) ws"
    by (simp add: expandWords_title titleCaseWord_idem expandWords_idem)
  then show ?thesis
    unfolding normalize_join [OF assms] normalize_join [OF w] by (simp only:)
qed

subsection \<open>Plain text becomes joined words\<close>

lemma plainText_set: "plainText s = (\<forall>c\<in>set s. isWordChar c \<or> isSpace c)"
  by (simp add: plainText_def list_all_iff)

lemma space_class_not_comma: "isSpace c \<Longrightarrow> \<not> isComma c"
  by (auto simp: isSpace_def isComma_def Let_def)

lemma star_match: "rx_match [Star p] prev s = Some (length (takeWhile p s))"
  by (induction s arbitrary: prev) auto

lemma spaces_run:
  assumes "isSpace c"
  shows "replaceAll rx_spaces rep prev (c # cs)
     = rep @ replaceAll rx_spaces rep (Some (last (c # takeWhile isSpace cs))) (dropWhile isSpace cs)"
proof -
  have m: "rx_match rx_spaces prev (c # cs) = Some (Suc (length (takeWhile isSpace cs)))"
    using assms by (simp add: rx_spaces_def star_match)
  have d: "drop (length (takeWhile isSpace cs)) cs = dropWhile isSpace cs"
    by (metis append_eq_conv_conj takeWhile_dropWhile_id)
  have t: "take (length (takeWhile isSpace cs)) cs = takeWhile isSpace cs"
    by (metis append_eq_conv_conj takeWhile_dropWhile_id)
  show ?thesis
    by (simp add: m d t del: rx_match.simps)
qed

lemma trim_set: "set (trim s) \<subseteq> set s"
  unfolding trim_def by (metis set_dropWhileD set_rev subsetI)

lemma trim_ends: "trim s = [] \<or> (\<not> isSpace (hd (trim s)) \<and> \<not> isSpace (last (trim s)))"
proof (cases "trim s = []")
  case True
  then show ?thesis by simp
next
  case False
  let ?u = "dropWhile isSpace s"
  let ?v = "dropWhile isSpace (rev ?u)"
  have v: "?v \<noteq> []" using False by (simp add: trim_def)
  have u: "?u \<noteq> []"
  proof
    assume "?u = []"
    then have "?v = []" by (simp only: rev.simps dropWhile.simps)
    with v show False ..
  qed
  have "\<not> isSpace (hd ?v)" using v by (rule hd_dropWhile)
  then have l: "\<not> isSpace (last (trim s))" using v by (simp add: trim_def last_rev)
  have "last ?v = last (rev ?u)"
    using v by (metis append_self_conv2 last_appendR takeWhile_dropWhile_id)
  then have "hd (trim s) = hd ?u" using v u by (simp add: trim_def hd_rev last_rev)
  moreover have "\<not> isSpace (hd ?u)" using u by (rule hd_dropWhile)
  ultimately show ?thesis using l by simp
qed

lemma squeeze_words:
  "plainText u \<Longrightarrow> u \<noteq> [] \<Longrightarrow> \<not> isSpace (hd u) \<Longrightarrow> \<not> isSpace (last u) \<Longrightarrow>
     \<exists>ws. ws \<noteq> [] \<and> wordList ws \<and> (\<forall>prev. replaceAll rx_spaces '' '' prev u = join '' '' ws)"
proof (induction "length u" arbitrary: u rule: less_induct)
  case less
  let ?x = "takeWhile (\<lambda>c. \<not> isSpace c) u"
  let ?rest = "dropWhile (\<lambda>c. \<not> isSpace c) u"
  have u: "u = ?x @ ?rest" by simp
  have x_ne: "?x \<noteq> []" using less.prems by (cases u) auto
  have x_ns: "\<forall>c\<in>set ?x. \<not> isSpace c" by (auto dest: set_takeWhileD)
  have x_w: "\<forall>c\<in>set ?x. isWordChar c"
    using less.prems(1) by (auto simp: plainText_set dest: set_takeWhileD)
  have sx: "replaceAll rx_spaces '' '' prev u = ?x @ replaceAll rx_spaces '' '' (Some (last ?x)) ?rest" for prev
    using spaces_word [OF x_ns, of "'' ''" prev ?rest] x_ne by simp
  show ?case
  proof (cases ?rest)
    case Nil
    have r: "replaceAll rx_spaces '' '' p [] = []" for p by (simp add: rx_spaces_def)
    have "replaceAll rx_spaces '' '' prev u = join '' '' [?x]" for prev
      using sx [of prev] unfolding Nil r by simp
    moreover have "wordList [?x]" using x_ne x_w by (simp add: wordList_def)
    ultimately show ?thesis by blast
  next
    case (Cons c r)
    have c: "isSpace c" using Cons hd_dropWhile [of "\<lambda>c. \<not> isSpace c" u] by auto
    let ?u' = "dropWhile isSpace r"
    have lu: "last u = last (c # r)" using u Cons by (metis last_appendR list.distinct(1))
    have u'_ne: "?u' \<noteq> []"
    proof
      assume "?u' = []"
      then have "\<forall>a\<in>set r. isSpace a" by (simp add: dropWhile_eq_Nil_conv)
      then have "isSpace (last (c # r))" using c by auto
      then show False using lu less.prems(4) by simp
    qed
    have "last ?u' = last r"
      using u'_ne by (metis append_self_conv2 last_appendR takeWhile_dropWhile_id)
    moreover have "r \<noteq> []" using u'_ne by auto
    ultimately have l': "\<not> isSpace (last ?u')" using lu less.prems(4) by simp
    have h': "\<not> isSpace (hd ?u')" using u'_ne by (rule hd_dropWhile)
    have "set ?u' \<subseteq> set u"
      using u Cons by (metis Un_iff set_append set_dropWhileD list.set_intros(2) subsetI)
    then have p': "plainText ?u'" using less.prems(1) by (auto simp: plainText_set)
    have "length ?u' \<le> length r" by (rule length_dropWhile_le)
    also have "\<dots> < length u" using u Cons by (metis length_append length_Cons less_add_Suc2 trans_less_add2 lessI)
    finally have len: "length ?u' < length u" .
    from less.hyps [OF len p' u'_ne h' l'] obtain ws where
      ws: "ws \<noteq> []" "wordList ws" "\<And>prev. replaceAll rx_spaces '' '' prev ?u' = join '' '' ws"
      by blast
    have "replaceAll rx_spaces '' '' prev u = join '' '' (?x # ws)" for prev
      using sx [of prev] spaces_run [OF c, of "'' ''" "Some (last ?x)" r] ws(1,3) Cons
      by (simp add: join_Cons)
    moreover have "wordList (?x # ws)" using x_ne x_w ws(2) by (simp add: wordList_Cons)
    ultimately show ?thesis by blast
  qed
qed

lemma collapse_trim_words:
  assumes "plainText s"
  shows "\<exists>ws. wordList ws \<and> collapseSpaces (collapseCommas (trim s)) = join '' '' ws"
proof -
  have p: "plainText (trim s)" using assms trim_set [of s] by (auto simp: plainText_set)
  then have "\<forall>c\<in>set (trim s). \<not> isComma c"
    by (auto simp: plainText_set dest: word_not_comma space_class_not_comma)
  then have cc: "collapseCommas (trim s) = trim s"
    unfolding collapseCommas_def rx_commas_def by (rule replaceAll_Plus_none)
  show ?thesis
  proof (cases "trim s = []")
    case True
    then have "collapseSpaces (collapseCommas (trim s)) = join '' '' []"
      using cc by (simp add: collapseSpaces_def rx_spaces_def)
    moreover have "wordList []" by (simp add: wordList_def)
    ultimately show ?thesis by blast
  next
    case False
    then have "\<not> isSpace (hd (trim s))" "\<not> isSpace (last (trim s))" using trim_ends [of s] by auto
    from squeeze_words [OF p False this] show ?thesis
      unfolding cc collapseSpaces_def by blast
  qed
qed

lemma pipeline_words:
  assumes "wordList ws"
  shows "expandAbbreviations (stripTrailingComma (titleCase (join '' '' ws)))
     = join '' '' (map (expandWords \<circ> titleCaseWord) ws)"
proof -
  have t: "wordList (map titleCaseWord ws)" using assms by (rule wordList_title)
  show ?thesis
    using assms t expandAbbreviations_join [OF t]
    by (simp add: titleCase_join stripTrailingComma_join)
qed

lemma normalize_plain_idem:
  assumes "plainText s"
  shows "normalizeStreetName (normalizeStreetName s) = normalizeStreetName s"
proof (cases "s = []")
  case True
  then show ?thesis by (simp add: normalizeStreetName_def)
next
  case False
  obtain ws where ws: "wordList ws" "collapseSpaces (collapseCommas (trim s)) = join '' '' ws"
    using collapse_trim_words [OF assms] by blast
  let ?ws' = "map (expandWords \<circ> titleCaseWord) ws"
  have n: "normalizeStreetName s = join '' '' ?ws'"
    using False ws pipeline_words [OF ws(1)] by (simp add: normalizeStreetName_def)
  have t: "wordList (map titleCaseWord ws)" using ws(1) by (rule wordList_title)
  have "wordList (map expandWords (map titleCaseWord ws))"
    using expandAbbreviations_join [OF t] by simp
  then have w: "wordList ?ws'" by simp
  have "map (expandWords \<circ> titleCaseWord) ?ws' = ?ws'"
    by (simp add: expandWords_title titleCaseWord_idem expandWords_idem)
  then show ?thesis unfolding n normalize_join [OF w] by (simp only:)
qed

lemma trim_Nil_spaces: "trim s = [] \<Longrightarrow> \<forall>c\<in>set s. isSpace c"
proof -
  assume t: "trim s = []"
  let ?u = "dropWhile isSpace s"
  have "dropWhile isSpace (rev ?u) = []" using t by (simp add: trim_def)
  then have a: "\<forall>c\<in>set ?u. isSpace c" by (simp add: dropWhile_eq_Nil_conv)
  have "?u = []"
  proof (rule ccontr)
    assume n: "?u \<noteq> []"
    then have "\<not> isSpace (hd ?u)" by (rule hd_dropWhile)
    moreover have "hd ?u \<in> set ?u" using n by simp
    ultimately show False using a by blast
  qed
  then show ?thesis by (simp add: dropWhile_eq_Nil_conv)
qed

lemma collapse_trim_nonempty:
  assumes "plainText s" "hasWordChar s"
  shows "\<exists>ws. ws \<noteq> [] \<and> wordList ws \<and> collapseSpaces (collapseCommas (trim s)) = join '' '' ws"
proof -
  have p: "plainText (trim s)" using assms(1) trim_set [of s] by (auto simp: plainText_set)
  then have "\<forall>c\<in>set (trim s). \<not> isComma c"
    by (auto simp: plainText_set dest: word_not_comma space_class_not_comma)
  then have cc: "collapseCommas (trim s) = trim s"
    unfolding collapseCommas_def rx_commas_def by (rule replaceAll_Plus_none)
  have ne: "trim s \<noteq> []"
    using assms(2) trim_Nil_spaces [of s] word_not_space
    by (auto simp: hasWordChar_def list_ex_iff)
  then have "\<not> isSpace (hd (trim s))" "\<not> isSpace (last (trim s))" using trim_ends [of s] by auto
  from squeeze_words [OF p ne this] show ?thesis
    unfolding cc collapseSpaces_def by blast
qed

lemma normalize_plain_nonempty:
  assumes "plainText s" "hasWordChar s"
  shows "normalizeStreetName s \<noteq> []"
proof -
  obtain ws where ws: "ws \<noteq> []" "wordList ws"
      "collapseSpaces (collapseCommas (trim s)) = join '' '' ws"
    using collapse_trim_nonempty [OF assms] by blast
  have s: "s \<noteq> []" using assms(2) by (auto simp: hasWordChar_def)
  let ?ws' = "map (expandWords \<circ> titleCaseWord) ws"
  have n: "normalizeStreetName s = join '' '' ?ws'"
    using s ws pipeline_words [OF ws(2)] by (simp add: normalizeStreetName_def)
  have t: "wordList (map titleCaseWord ws)" using ws(2) by (rule wordList_title)
  have "wordList (map expandWords (map titleCaseWord ws))"
    using expandAbbreviations_join [OF t] by simp
  then have w: "wordList ?ws'" by simp
  show ?thesis unfolding n using ws(1) w by (simp add: join_Nil_iff)
qed

section \<open>Result shapes\<close>

lemma getCurrentLocation_cases:
  "(\<exists>cs st. getCurrentLocation nav = (\<lparr>data = None, error = Some st\<rparr>, cs) \<and> st \<noteq> Success)
   \<or> (\<exists>cs c. getCurrentLocation nav = (\<lparr>data = Some c, error = None\<rparr>, cs))"
  by (auto simp: getCurrentLocation_def errorStateOf_def
      split: option.splits position_answer.splits)

lemma reverseGeocode_cases:
  "(\<exists>m. fst (reverseGeocode fetch c) = \<lparr>data = None, error = Some m\<rparr>)
   \<or> (\<exists>a. fst (reverseGeocode fetch c) = \<lparr>data = Some a, error = None\<rparr>)"
  by (auto simp: reverseGeocode_def geocodeCatch_def Let_def split: sum.splits option.splits)

lemma getCurrentLocation_fix:
  "getCurrentLocation fixBengaluru =
     (\<lparr>data = Some bengaluru, error = None\<rparr>, [GetCurrentPosition])"
  by (simp add: getCurrentLocation_def fixBengaluru_def bengaluru_def)



lemma detectLocation_state_range:
  "state (fst (detectLocation nav fetch))
     \<in> {Success, PermissionDenied, Timeout, Unsupported, GeocodingFailed, Error}"
  apply (cases "getCurrentLocation nav")
  apply (auto simp: detectLocation_def coordFailure_def geoFailure_def getCurrentLocation_def
      errorStateOf_def split: option.splits prod.splits position_answer.splits if_splits)
  done

lemma requestLocation_never_geocoding:
  "Geocoding \<notin> set (tl (requestLocation st0 nav fetch stats))"
  using detectLocation_state_range [of nav fetch]
  by (auto simp: requestLocation_def Let_def split: option.splits)

lemma detectLocation_mgRoad:
  "fst (detectLocation fixBengaluru (respondWith mgRoadAddress)) =
     \<lparr>data = Some mgRoadResult, error = None, state = Success\<rparr>"
  apply (simp add: detectLocation_def getCurrentLocation_fix reverseGeocode_def respondWith_def
      cityCandidate_def truthy_def streetCandidate_def extractStreetName_def streetFields_def)
  apply (simp add: mgRoadAddress_def emptyAddress_def normalize_MG_Road normalize_Bengaluru
      truthy_def mgRoadResult_def)
  done

section \<open>Properties\<close>

text \<open>
  C1, as the code has it. \<open>normalizeStreetName\<close> applies its steps in the order trim,
  collapse commas, collapse whitespace, selective title case, strip a trailing comma,
  expand the abbreviations; and it is idempotent on plain text, that is on every string
  made only of letters, digits, underscores and whitespace.
\<close>

theorem normalizeStreetName_idempotent_plain:
  "normalizeStreetName s =
     (if s = [] then []
      else expandAbbreviations
             (stripTrailingComma (titleCase (collapseSpaces (collapseCommas (trim s))))))
   \<and> (plainText s \<longrightarrow>
        normalizeStreetName (normalizeStreetName s) = normalizeStreetName s)"
  using normalize_plain_idem [of s] by (simp add: normalizeStreetName_def)

theorem normalizeStreetName_idempotent_plain_witness:
  "plainText ''OAK   AVE''
   \<and> normalizeStreetName ''OAK   AVE'' = ''OAK Avenue''
   \<and> normalizeStreetName (normalizeStreetName ''OAK   AVE'') = ''OAK Avenue''"
  using normalizeStreetName_idempotent_plain [of "''OAK   AVE''", THEN conjunct2]
    plain_OAK_AVE normalize_OAK_AVE
  by simp

text \<open>C1 as stated fails: \<open>"a-st"\<close> is normalized to \<open>"A-Street"\<close>, and that to
  \<open>"A-street"\<close>.\<close>

theorem normalizeStreetName_idempotent_counterexample:
  "normalizeStreetName (normalizeStreetName ''a-st'') \<noteq> normalizeStreetName ''a-st''"
  by (simp add: normalize_a_st normalize_A_Street)

text \<open>
  C2, as the code has it. In the result of a successful \<open>detectLocation\<close> the source is
  \<open>'auto'\<close>, the coordinates are the platform's fix, and street name and city are what the
  normalizer returns for the street candidate and for the city candidate of the
  geocoder's address object, both of which are non-empty. When a candidate is plain text
  (letters, digits, underscores and whitespace) and not blank, the stored string is not
  empty and the normalizer leaves it unchanged.
\<close>

theorem detectLocation_success_address:
  assumes "data (fst (detectLocation nav fetch)) = Some d"
  shows "source d = Auto
     \<and> (\<exists>lat lon acc resp body a.
           nav = Some (Position lat lon acc)
         \<and> coordinates d = \<lparr>latitude = lat, longitude = lon, accuracy = Some acc\<rparr>
         \<and> fetch (coordinates d) = Inr resp \<and> ok resp \<and> json resp = Inr body
         \<and> body_address body = Some a
         \<and> streetCandidate a \<noteq> [] \<and> cityCandidate a \<noteq> []
         \<and> street_name (address d) = normalizeStreetName (streetCandidate a)
         \<and> city (address d) = normalizeStreetName (cityCandidate a)
         \<and> (plainText (streetCandidate a) \<and> hasWordChar (streetCandidate a) \<longrightarrow>
              street_name (address d) \<noteq> []
              \<and> normalizeStreetName (street_name (address d)) = street_name (address d))
         \<and> (plainText (cityCandidate a) \<and> hasWordChar (cityCandidate a) \<longrightarrow>
              city (address d) \<noteq> []
              \<and> normalizeStreetName (city (address d)) = city (address d)))"
proof -
  have base: "source d = Auto
     \<and> (\<exists>lat lon acc resp body a.
           nav = Some (Position lat lon acc)
         \<and> coordinates d = \<lparr>latitude = lat, longitude = lon, accuracy = Some acc\<rparr>
         \<and> fetch (coordinates d) = Inr resp \<and> ok resp \<and> json resp = Inr body
         \<and> body_address body = Some a
         \<and> streetCandidate a \<noteq> [] \<and> cityCandidate a \<noteq> []
         \<and> street_name (address d) = normalizeStreetName (streetCandidate a)
         \<and> city (address d) = normalizeStreetName (cityCandidate a))"
    using assms
    apply (cases "getCurrentLocation nav")
    apply (auto simp: detectLocation_def coordFailure_def geoFailure_def getCurrentLocation_def
      reverseGeocode_def geocodeCatch_def Let_def cityCandidate_nonempty
      split: option.splits prod.splits position_answer.splits if_splits sum.splits)
    done
  have fp: "plainText x \<and> hasWordChar x \<longrightarrow>
      normalizeStreetName x \<noteq> []
      \<and> normalizeStreetName (normalizeStreetName x) = normalizeStreetName x" for x
    using normalize_plain_nonempty normalize_plain_idem by blast
  from base show ?thesis using fp by metis
qed

theorem detectLocation_success_address_witness:
  "data (fst (detectLocation fixBengaluru (respondWith mgRoadAddress))) = Some mgRoadResult
   \<and> source mgRoadResult = Auto
   \<and> streetCandidate mgRoadAddress = ''MG Road''
   \<and> plainText ''MG Road'' \<and> hasWordChar ''MG Road''
   \<and> street_name (address mgRoadResult) = ''MG Road''
   \<and> normalizeStreetName (street_name (address mgRoadResult)) = street_name (address mgRoadResult)
   \<and> cityCandidate mgRoadAddress = ''Bengaluru''
   \<and> plainText ''Bengaluru'' \<and> hasWordChar ''Bengaluru''
   \<and> city (address mgRoadResult) = ''Bengaluru''
   \<and> normalizeStreetName (city (address mgRoadResult)) = city (address mgRoadResult)"
proof -
  have h: "data (fst (detectLocation fixBengaluru (respondWith mgRoadAddress))) = Some mgRoadResult"
    by (simp add: detectLocation_mgRoad)
  have s: "streetCandidate mgRoadAddress = ''MG Road''"
    by (simp add: streetCandidate_def extractStreetName_def streetFields_def mgRoadAddress_def
        emptyAddress_def normalize_MG_Road)
  have c: "cityCandidate mgRoadAddress = ''Bengaluru''"
    by (simp add: cityCandidate_def mgRoadAddress_def emptyAddress_def)
  from detectLocation_success_address [OF h] obtain a where
    a: "respondWith mgRoadAddress (coordinates mgRoadResult)
          = Inr \<lparr>ok = True, json = Inr \<lparr>body_address = Some a, display_name = None\<rparr>\<rparr>"
    and st: "plainText (streetCandidate a) \<and> hasWordChar (streetCandidate a) \<longrightarrow>
              street_name (address mgRoadResult) \<noteq> []
              \<and> normalizeStreetName (street_name (address mgRoadResult))
                  = street_name (address mgRoadResult)"
    and ct: "plainText (cityCandidate a) \<and> hasWordChar (cityCandidate a) \<longrightarrow>
              city (address mgRoadResult) \<noteq> []
              \<and> normalizeStreetName (city (address mgRoadResult)) = city (address mgRoadResult)"
    by (auto simp: respondWith_def)
  from a have "a = mgRoadAddress" by (simp add: respondWith_def)
  with st ct s c plain_MG_Road plain_Bengaluru h show ?thesis
    by (simp add: mgRoadResult_def)
qed

text \<open>C2 as stated fails: with the road \<open>", ,"\<close> and the city \<open>"x-st"\<close> the detection
  succeeds with an empty street name, and with a city that the normalizer changes
  again.\<close>

theorem detectLocation_success_counterexample:
  "fst (detectLocation fixBengaluru (respondWith commaAddress)) =
       \<lparr>data = Some \<lparr>coordinates = bengaluru,
                     address = \<lparr>street_name = [], city = ''X-Street'',
                                addr_state = None, postal_code = None, full_address = None\<rparr>,
                     source = Auto\<rparr>,
        error = None, state = Success\<rparr>
   \<and> normalizeStreetName ''X-Street'' \<noteq> ''X-Street''"
  apply (simp add: detectLocation_def getCurrentLocation_fix reverseGeocode_def respondWith_def
      cityCandidate_def truthy_def streetCandidate_def extractStreetName_def streetFields_def
      normalize_X_Street)
  apply (simp add: commaAddress_def emptyAddress_def normalize_comma_space_comma
      normalize_comma_space normalize_x_st truthy_def)
  done

text \<open>
  C3, as the code has it. The normalizer keeps \<open>OAK\<close>, a word of three characters that is
  already upper case, and it has no step that removes a house number:
  \<open>"OAK   AVE"\<close> becomes \<open>"OAK Avenue"\<close> and \<open>"123 main st."\<close> becomes
  \<open>"123 Main Street"\<close>.
\<close>

theorem normalizeStreetName_examples:
  "normalizeStreetName ''OAK   AVE'' = ''OAK Avenue''
   \<and> normalizeStreetName ''123 main st.'' = ''123 Main Street''"
  by (simp add: normalize_OAK_AVE normalize_123_main_st)

text \<open>C3 as stated fails on both examples: neither \<open>"Oak Avenue"\<close> nor \<open>"Main Street"\<close>
  is what the normalizer returns.\<close>

theorem normalizeStreetName_examples_counterexample:
  "normalizeStreetName ''OAK   AVE'' \<noteq> ''Oak Avenue''
   \<and> normalizeStreetName ''123 main st.'' \<noteq> ''Main Street''"
  by (simp add: normalize_OAK_AVE normalize_123_main_st)





text \<open>
  C6: without the geolocation capability \<open>getCurrentLocation\<close> answers \<open>'unsupported'\<close> and
  calls nothing; with it, the platform's permission-denied code gives \<open>'permission-denied'\<close>,
  its timeout code \<open>'timeout'\<close>, and position-unavailable or any other code \<open>'error'\<close>.
\<close>

theorem getCurrentLocation_errors:
  "(\<not> isGeolocationSupported nav \<longrightarrow>
      getCurrentLocation nav = (\<lparr>data = None, error = Some Unsupported\<rparr>, []))
   \<and> getCurrentLocation (Some (PositionError PERMISSION_DENIED)) =
       (\<lparr>data = None, error = Some PermissionDenied\<rparr>, [GetCurrentPosition])
   \<and> getCurrentLocation (Some (PositionError TIMEOUT)) =
       (\<lparr>data = None, error = Some Timeout\<rparr>, [GetCurrentPosition])
   \<and> getCurrentLocation (Some (PositionError POSITION_UNAVAILABLE)) =
       (\<lparr>data = None, error = Some Error\<rparr>, [GetCurrentPosition])
   \<and> (code \<noteq> PERMISSION_DENIED \<and> code \<noteq> TIMEOUT \<longrightarrow>
        getCurrentLocation (Some (PositionError code)) =
          (\<lparr>data = None, error = Some Error\<rparr>, [GetCurrentPosition]))"
  by (auto simp: getCurrentLocation_def isGeolocationSupported_def errorStateOf_def
      PERMISSION_DENIED_def TIMEOUT_def POSITION_UNAVAILABLE_def)

theorem getCurrentLocation_errors_witness:
  "\<not> isGeolocationSupported None
   \<and> getCurrentLocation None = (\<lparr>data = None, error = Some Unsupported\<rparr>, [])
   \<and> 7 \<noteq> PERMISSION_DENIED \<and> 7 \<noteq> TIMEOUT
   \<and> getCurrentLocation (Some (PositionError 7)) =
       (\<lparr>data = None, error = Some Error\<rparr>, [GetCurrentPosition])"
  using getCurrentLocation_errors [of None 7]
  by (simp add: isGeolocationSupported_def PERMISSION_DENIED_def TIMEOUT_def)

text \<open>
  C7: a response that is not \<open>ok\<close> gives the error \<open>"Geocoding service unavailable"\<close>, a body
  without an address object gives \<open>"No address found for this location"\<close>, a value thrown
  by \<open>fetch\<close> or by \<open>response.json()\<close> is caught and becomes an error result, and whenever
  \<open>reverseGeocode\<close> has no data \<open>detectLocation\<close> ends in \<open>'geocoding-failed'\<close> with an error
  and no data. Every throw site is inside the \<open>try\<close> block, so the results are values.
\<close>

theorem reverseGeocode_failures:
  "(fetch c = Inr resp \<and> \<not> ok resp \<longrightarrow>
      fst (reverseGeocode fetch c) =
        \<lparr>data = None, error = Some ''Geocoding service unavailable''\<rparr>)
   \<and> (fetch c = Inr resp \<and> ok resp \<and> json resp = Inr body \<and> body_address body = None \<longrightarrow>
      fst (reverseGeocode fetch c) =
        \<lparr>data = None, error = Some ''No address found for this location''\<rparr>)
   \<and> (fetch c = Inl e \<or> (fetch c = Inr resp \<and> ok resp \<and> json resp = Inl e) \<longrightarrow>
      fst (reverseGeocode fetch c) = geocodeCatch e \<and> data (geocodeCatch e) = None
      \<and> error (geocodeCatch e) \<noteq> None)
   \<and> (fst (getCurrentLocation nav) = \<lparr>data = Some c, error = None\<rparr>
        \<and> data (fst (reverseGeocode fetch c)) = None \<longrightarrow>
      state (fst (detectLocation nav fetch)) = GeocodingFailed
      \<and> data (fst (detectLocation nav fetch)) = None
      \<and> error (fst (detectLocation nav fetch)) \<noteq> None)"
proof -
  have a: "fetch c = Inr resp \<and> \<not> ok resp \<longrightarrow>
      fst (reverseGeocode fetch c) =
        \<lparr>data = None, error = Some ''Geocoding service unavailable''\<rparr>"
    by (simp add: reverseGeocode_def geocodeCatch_def)
  have b: "fetch c = Inr resp \<and> ok resp \<and> json resp = Inr body \<and> body_address body = None \<longrightarrow>
      fst (reverseGeocode fetch c) =
        \<lparr>data = None, error = Some ''No address found for this location''\<rparr>"
    by (simp add: reverseGeocode_def geocodeCatch_def)
  have c: "fetch c = Inl e \<or> (fetch c = Inr resp \<and> ok resp \<and> json resp = Inl e) \<longrightarrow>
      fst (reverseGeocode fetch c) = geocodeCatch e \<and> data (geocodeCatch e) = None
      \<and> error (geocodeCatch e) \<noteq> None"
    by (auto simp: reverseGeocode_def geocodeCatch_def)
  have d: "fst (getCurrentLocation nav) = \<lparr>data = Some c, error = None\<rparr>
        \<and> data (fst (reverseGeocode fetch c)) = None \<longrightarrow>
      state (fst (detectLocation nav fetch)) = GeocodingFailed
      \<and> data (fst (detectLocation nav fetch)) = None
      \<and> error (fst (detectLocation nav fetch)) \<noteq> None"
    by (cases "getCurrentLocation nav"; cases "reverseGeocode fetch c")
       (auto simp: detectLocation_def geoFailure_def truthy_def split: option.splits)
  from a b c d show ?thesis by blast
qed

theorem reverseGeocode_failures_witness:
  "respondUnavailable bengaluru = Inr \<lparr>ok = False, json = Inl JsOther\<rparr>
   \<and> fst (reverseGeocode respondUnavailable bengaluru) =
        \<lparr>data = None, error = Some ''Geocoding service unavailable''\<rparr>
   \<and> respondNoAddress bengaluru =
        Inr \<lparr>ok = True, json = Inr \<lparr>body_address = None, display_name = None\<rparr>\<rparr>
   \<and> fst (reverseGeocode respondNoAddress bengaluru) =
        \<lparr>data = None, error = Some ''No address found for this location''\<rparr>
   \<and> respondThrows bengaluru = Inl (JsError ''Failed to fetch'')
   \<and> fst (reverseGeocode respondThrows bengaluru) =
        \<lparr>data = None, error = Some ''Failed to fetch''\<rparr>
   \<and> fst (getCurrentLocation fixBengaluru) = \<lparr>data = Some bengaluru, error = None\<rparr>
   \<and> data (fst (reverseGeocode respondThrows bengaluru)) = None
   \<and> state (fst (detectLocation fixBengaluru respondThrows)) = GeocodingFailed
   \<and> data (fst (detectLocation fixBengaluru respondThrows)) = None
   \<and> error (fst (detectLocation fixBengaluru respondThrows)) \<noteq> None"
  using
    reverseGeocode_failures [of respondUnavailable bengaluru
      "\<lparr>ok = False, json = Inl JsOther\<rparr>"
      "\<lparr>body_address = None, display_name = None\<rparr>" JsOther fixBengaluru]
    reverseGeocode_failures [of respondNoAddress bengaluru
      "\<lparr>ok = True, json = Inr \<lparr>body_address = None, display_name = None\<rparr>\<rparr>"
      "\<lparr>body_address = None, display_name = None\<rparr>" JsOther fixBengaluru]
    reverseGeocode_failures [of respondThrows bengaluru
      "\<lparr>ok = False, json = Inl JsOther\<rparr>"
      "\<lparr>body_address = None, display_name = None\<rparr>" "JsError ''Failed to fetch''"
      fixBengaluru]
  by (simp add: respondUnavailable_def respondNoAddress_def respondThrows_def
      getCurrentLocation_fix geocodeCatch_def)

text \<open>
  C8, evaluated. On a successful run started from \<open>'idle'\<close> the dashboard's state takes the
  values idle, detecting, success: \<open>'geocoding'\<close> is never assigned, on this run or on
  any other. A permission denial gives idle, detecting, permission-denied, and the
  geocoder is not called.
\<close>

theorem requestLocation_states:
  "requestLocation Idle fixBengaluru (respondWith mgRoadAddress) noThrow
     = [Idle, Detecting, Success]
   \<and> Geocoding \<notin> set (tl (requestLocation st0 nav fetch stats))
   \<and> requestLocation Idle (Some (PositionError PERMISSION_DENIED)) fetch stats
     = [Idle, Detecting, PermissionDenied]
   \<and> snd (detectLocation (Some (PositionError PERMISSION_DENIED)) fetch) = [GetCurrentPosition]"
proof -
  have a: "requestLocation Idle fixBengaluru (respondWith mgRoadAddress) noThrow
     = [Idle, Detecting, Success]"
    by (simp add: requestLocation_def detectLocation_mgRoad truthy_def noThrow_def
        mgRoadResult_def)
  have b: "requestLocation Idle (Some (PositionError PERMISSION_DENIED)) fetch stats
     = [Idle, Detecting, PermissionDenied]
   \<and> snd (detectLocation (Some (PositionError PERMISSION_DENIED)) fetch) = [GetCurrentPosition]"
    by (simp add: requestLocation_def detectLocation_def getCurrentLocation_def errorStateOf_def
        coordFailure_def)
  from a b requestLocation_never_geocoding [of st0 nav fetch stats] show ?thesis by blast
qed

text \<open>
  C10: each of \<open>getCurrentLocation\<close>, \<open>reverseGeocode\<close> and \<open>detectLocation\<close> returns
  exactly one of \<open>data\<close> and \<open>error\<close>, and the state of \<open>detectLocation\<close> is \<open>'success'\<close>
  exactly when it returns data.
\<close>

theorem outcome_exactly_one:
  "(data (fst (getCurrentLocation nav)) = None) \<noteq> (error (fst (getCurrentLocation nav)) = None)
   \<and> (data (fst (reverseGeocode fetch c)) = None) \<noteq> (error (fst (reverseGeocode fetch c)) = None)
   \<and> (data (fst (detectLocation nav fetch)) = None)
       \<noteq> (error (fst (detectLocation nav fetch)) = None)
   \<and> (state (fst (detectLocation nav fetch)) = Success)
       = (data (fst (detectLocation nav fetch)) \<noteq> None)"
proof -
  have g: "(data (fst (getCurrentLocation nav)) = None)
      \<noteq> (error (fst (getCurrentLocation nav)) = None)"
    using getCurrentLocation_cases [of nav] by auto
  have r: "(data (fst (reverseGeocode fetch c)) = None)
      \<noteq> (error (fst (reverseGeocode fetch c)) = None)"
    using reverseGeocode_cases [of fetch c] by auto
  have d: "(data (fst (detectLocation nav fetch)) = None)
        \<noteq> (error (fst (detectLocation nav fetch)) = None)
    \<and> (state (fst (detectLocation nav fetch)) = Success)
        = (data (fst (detectLocation nav fetch)) \<noteq> None)"
  proof -
    from getCurrentLocation_cases [of nav] show ?thesis
    proof (elim disjE exE conjE)
      fix cs st
      assume "getCurrentLocation nav = (\<lparr>data = None, error = Some st\<rparr>, cs)" "st \<noteq> Success"
      then show ?thesis by (simp add: detectLocation_def coordFailure_def)
    next
      fix cs c'
      assume h: "getCurrentLocation nav = (\<lparr>data = Some c', error = None\<rparr>, cs)"
      from reverseGeocode_cases [of fetch c'] show ?thesis
      proof (elim disjE exE)
        fix m assume "fst (reverseGeocode fetch c') = \<lparr>data = None, error = Some m\<rparr>"
        then show ?thesis using h
          by (cases "reverseGeocode fetch c'") (simp add: detectLocation_def geoFailure_def)
      next
        fix a assume "fst (reverseGeocode fetch c') = \<lparr>data = Some a, error = None\<rparr>"
        then show ?thesis using h
          by (cases "reverseGeocode fetch c'")
             (simp add: detectLocation_def geoFailure_def truthy_def)
      qed
    qed
  qed
  from g r d show ?thesis by blast
qed

end
